theory Spec2Isabelle
  imports Complex_Main "HOL-Library.Word"
begin

unbundle bit_operations_syntax

section \<open>Events (clutter-event.c)\<close>

subsection \<open>The event record\<close>

text \<open>
  The event kinds the two source files name. \<open>ClutterEvent\<close> is a C union whose views
  (\<open>any\<close>, \<open>key\<close>, \<open>button\<close>, \<open>motion\<close>, \<open>scroll\<close>) all start with the kind tag, so
  \<open>event->type\<close>, \<open>event->any.type\<close>, \<open>event->button.type\<close>, ... are one field here,
  \<open>type\<close>. Every other member of a view is a field of its own, named view_member: the
  source never writes a member through one view and reads it through another, and the
  layout of the union is not part of this model.
\<close>

datatype ClutterEventType =
    CLUTTER_NOTHING
  | CLUTTER_KEY_PRESS
  | CLUTTER_KEY_RELEASE
  | CLUTTER_MOTION
  | CLUTTER_BUTTON_PRESS
  | CLUTTER_2BUTTON_PRESS
  | CLUTTER_3BUTTON_PRESS
  | CLUTTER_BUTTON_RELEASE
  | CLUTTER_SCROLL

type_synonym guint32 = "32 word"
type_synonym guint = "32 word"
type_synonym guint16 = "16 word"
type_synonym gint = int
type_synonym pointer = nat

text \<open>
  Widths as the source shows them: \<open>clutter_event_get_time\<close> and
  \<open>clutter_event_get_state\<close> return the time and the modifier state as \<open>guint32\<close>,
  \<open>clutter_button_event_button\<close> the button as \<open>guint32\<close>, \<open>clutter_key_event_symbol\<close>
  the key symbol as \<open>guint\<close>, \<open>clutter_key_event_code\<close> the key code as \<open>guint16\<close>.
  Coordinates are read into \<open>gint\<close> by \<open>clutter_event_get_coords\<close>; they are integers
  here (a \<open>gint\<close> in its range). A pointer is an address, \<open>None\<close> for \<open>NULL\<close>.
\<close>

record ClutterEvent =
  type :: ClutterEventType
  flags :: guint32
  any_stage :: "pointer option"
  key_time :: guint32
  key_modifier_state :: guint32
  key_keyval :: guint
  key_hardware_keycode :: guint16
  key_unicode_value :: guint32
  button_time :: guint32
  button_x :: gint
  button_y :: gint
  button_modifier_state :: guint32
  button_button :: guint32
  button_click_count :: guint
  button_device :: "pointer option"
  motion_time :: guint32
  motion_x :: gint
  motion_y :: gint
  motion_modifier_state :: guint32
  motion_device :: "pointer option"
  scroll_time :: guint32
  scroll_x :: gint
  scroll_y :: gint
  scroll_modifier_state :: guint32

text \<open>\<open>CLUTTER_CURRENT_TIME\<close> and \<open>CLUTTER_EVENT_NONE\<close> are defined as 0 in the headers
  of the library (clutter-main.h, clutter-event.h).\<close>

definition CLUTTER_CURRENT_TIME :: guint32 where
  "CLUTTER_CURRENT_TIME = 0"

definition CLUTTER_EVENT_NONE :: guint32 where
  "CLUTTER_EVENT_NONE = 0"

subsection \<open>Accessors\<close>

text \<open>Each accessor takes the event pointer: \<open>None\<close> is \<open>NULL\<close>, which
  \<open>g_return_val_if_fail\<close> answers with the default.\<close>

fun clutter_event_type :: "ClutterEvent option \<Rightarrow> ClutterEventType" where
  "clutter_event_type None = CLUTTER_NOTHING"
| "clutter_event_type (Some event) = type event"

fun clutter_event_get_time :: "ClutterEvent option \<Rightarrow> guint32" where
  "clutter_event_get_time None = CLUTTER_CURRENT_TIME"
| "clutter_event_get_time (Some event) =
     (case type event of
        CLUTTER_KEY_PRESS \<Rightarrow> key_time event
      | CLUTTER_KEY_RELEASE \<Rightarrow> key_time event
      | CLUTTER_BUTTON_PRESS \<Rightarrow> button_time event
      | CLUTTER_2BUTTON_PRESS \<Rightarrow> button_time event
      | CLUTTER_BUTTON_RELEASE \<Rightarrow> button_time event
      | CLUTTER_MOTION \<Rightarrow> motion_time event
      | CLUTTER_SCROLL \<Rightarrow> scroll_time event
      | _ \<Rightarrow> CLUTTER_CURRENT_TIME)"

fun clutter_event_get_state :: "ClutterEvent option \<Rightarrow> guint32" where
  "clutter_event_get_state None = 0"
| "clutter_event_get_state (Some event) =
     (case type event of
        CLUTTER_KEY_PRESS \<Rightarrow> key_modifier_state event
      | CLUTTER_KEY_RELEASE \<Rightarrow> key_modifier_state event
      | CLUTTER_BUTTON_PRESS \<Rightarrow> button_modifier_state event
      | CLUTTER_2BUTTON_PRESS \<Rightarrow> button_modifier_state event
      | CLUTTER_BUTTON_RELEASE \<Rightarrow> button_modifier_state event
      | CLUTTER_MOTION \<Rightarrow> motion_modifier_state event
      | CLUTTER_SCROLL \<Rightarrow> scroll_modifier_state event
      | _ \<Rightarrow> 0)"

text \<open>\<open>clutter_event_get_coords\<close> writes through the two out-pointers that are not
  \<open>NULL\<close>; the result here is the pair \<open>(event_x, event_y)\<close> it writes. With a \<open>NULL\<close>
  event it returns before writing anything: \<open>None\<close>.\<close>

fun clutter_event_get_coords :: "ClutterEvent option \<Rightarrow> (gint \<times> gint) option" where
  "clutter_event_get_coords None = None"
| "clutter_event_get_coords (Some event) =
     Some (case type event of
        CLUTTER_KEY_PRESS \<Rightarrow> (0, 0)
      | CLUTTER_KEY_RELEASE \<Rightarrow> (0, 0)
      | CLUTTER_BUTTON_PRESS \<Rightarrow> (button_x event, button_y event)
      | CLUTTER_2BUTTON_PRESS \<Rightarrow> (button_x event, button_y event)
      | CLUTTER_BUTTON_RELEASE \<Rightarrow> (button_x event, button_y event)
      | CLUTTER_MOTION \<Rightarrow> (motion_x event, motion_y event)
      | CLUTTER_SCROLL \<Rightarrow> (scroll_x event, scroll_y event)
      | _ \<Rightarrow> (0, 0))"

fun clutter_button_event_button :: "ClutterEvent option \<Rightarrow> guint32" where
  "clutter_button_event_button None = 0"
| "clutter_button_event_button (Some buttev) = button_button buttev"

fun clutter_key_event_symbol :: "ClutterEvent option \<Rightarrow> guint" where
  "clutter_key_event_symbol None = 0"
| "clutter_key_event_symbol (Some keyev) = key_keyval keyev"

fun clutter_key_event_code :: "ClutterEvent option \<Rightarrow> guint16" where
  "clutter_key_event_code None = 0"
| "clutter_key_event_code (Some keyev) = key_hardware_keycode keyev"

subsection \<open>Key symbols to Unicode\<close>

text \<open>
  The table \<open>clutter_keysym_to_unicode_tab\<close> lives in clutter-keysyms-table.h, which is
  not among the sources: it is a parameter here, a list of entries with the two members
  the function reads.
\<close>

record keysym_entry =
  keysym :: guint
  ucs :: guint32

text \<open>
  The \<open>while (max >= min)\<close> loop (\<open>min\<close> and \<open>max\<close> are \<open>imin\<close> and \<open>imax\<close> here). The
  indices are C \<open>int\<close>s. Started as the function below starts it, they stay between 0
  and the last index of the table: every read is in range, \<open>imin + imax\<close> is not
  negative, so that C's division is \<open>div\<close>, and it does not overflow for a table of
  fewer than \<open>2 ^ 30\<close> entries.
\<close>

function keysym_search :: "keysym_entry list \<Rightarrow> guint \<Rightarrow> int \<Rightarrow> int \<Rightarrow> guint32" where
  "keysym_search tab keyval imin imax =
     (if imax \<ge> imin then
        (let mid = (imin + imax) div 2 in
         if keysym (tab ! nat mid) < keyval then keysym_search tab keyval (mid + 1) imax
         else if keysym (tab ! nat mid) > keyval then keysym_search tab keyval imin (mid - 1)
         else ucs (tab ! nat mid))
      else 0)"
  by pat_completeness auto
termination
  by (relation "measure (\<lambda>(tab, keyval, imin, imax). nat (imax - imin + 1))") auto

definition clutter_keysym_to_unicode :: "keysym_entry list \<Rightarrow> guint \<Rightarrow> guint32" where
  "clutter_keysym_to_unicode tab keyval =
     (if (keyval \<ge> 0x0020 \<and> keyval \<le> 0x007e) \<or> (keyval \<ge> 0x00a0 \<and> keyval \<le> 0x00ff)
      then keyval
      else if keyval AND 0xff000000 = 0x01000000 then keyval AND 0x00ffffff
      else keysym_search tab keyval 0 (int (length tab) - 1))"

text \<open>The two Latin-1 ranges that the lookup maps to themselves, as a predicate for
  the properties below.\<close>

definition latin1 :: "guint \<Rightarrow> bool" where
  "latin1 k = ((0x20 \<le> k \<and> k \<le> 0x7e) \<or> (0xa0 \<le> k \<and> k \<le> 0xff))"

fun clutter_key_event_unicode :: "keysym_entry list \<Rightarrow> ClutterEvent option \<Rightarrow> guint32" where
  "clutter_key_event_unicode tab None = 0"
| "clutter_key_event_unicode tab (Some keyev) = clutter_keysym_to_unicode tab (key_keyval keyev)"

subsection \<open>Allocation and copy\<close>

text \<open>
  Events live in blocks that \<open>g_slice_new0\<close> hands out, and the functions below work on
  pointers to them, so the blocks are an explicit store: \<open>cells\<close> holds the block at
  each address (\<open>None\<close> once freed) and \<open>g_slice_new0\<close> returns the next address, one
  that no live block has, with a zero-filled block. \<open>event_hash\<close> is the static table
  of live events, \<open>NULL\<close> until the first event is created.
\<close>

record event_store =
  cells :: "ClutterEvent option list"
  event_hash :: "pointer set option"

definition zero_event :: ClutterEvent where
  "zero_event = \<lparr> type = CLUTTER_NOTHING, flags = 0, any_stage = None,
     key_time = 0, key_modifier_state = 0, key_keyval = 0, key_hardware_keycode = 0,
     key_unicode_value = 0,
     button_time = 0, button_x = 0, button_y = 0, button_modifier_state = 0,
     button_button = 0, button_click_count = 0, button_device = None,
     motion_time = 0, motion_x = 0, motion_y = 0, motion_modifier_state = 0,
     motion_device = None,
     scroll_time = 0, scroll_x = 0, scroll_y = 0, scroll_modifier_state = 0 \<rparr>"

definition event_at :: "event_store \<Rightarrow> pointer \<Rightarrow> ClutterEvent option" where
  "event_at st p = (if p < length (cells st) then cells st ! p else None)"

text \<open>An assignment through a pointer to a live block; nothing is written through a
  pointer that has no block.\<close>

definition event_assign :: "event_store \<Rightarrow> pointer \<Rightarrow> ClutterEvent \<Rightarrow> event_store" where
  "event_assign st p v =
     (if event_at st p = None then st else st\<lparr>cells := (cells st)[p := Some v]\<rparr>)"

definition g_slice_new0 :: "event_store \<Rightarrow> pointer \<times> event_store" where
  "g_slice_new0 st = (length (cells st), st\<lparr>cells := cells st @ [Some zero_event]\<rparr>)"

text \<open>What \<open>clutter_event_new\<close> leaves in the block it has allocated.\<close>

definition new_event_value :: "ClutterEventType \<Rightarrow> ClutterEvent" where
  "new_event_value ty = zero_event\<lparr>type := ty, flags := CLUTTER_EVENT_NONE\<rparr>"

definition clutter_event_new :: "ClutterEventType \<Rightarrow> event_store \<Rightarrow> pointer \<times> event_store" where
  "clutter_event_new ty st =
     (let hash = (case event_hash st of None \<Rightarrow> {} | Some h \<Rightarrow> h);
          (new_event, st1) = g_slice_new0 st;
          st2 = event_assign st1 new_event (new_event_value ty)
      in (new_event, st2\<lparr>event_hash := Some (insert new_event hash)\<rparr>))"

text \<open>\<open>*new_event = *event\<close> copies the whole block. The source reads \<open>*event\<close>
  whatever \<open>event\<close> points to; the copy is modelled where \<open>event\<close> is \<open>NULL\<close> (it returns
  \<open>NULL\<close>) or points to a live event, and leaves the new block as it is otherwise.\<close>

fun clutter_event_copy :: "pointer option \<Rightarrow> event_store \<Rightarrow> pointer option \<times> event_store" where
  "clutter_event_copy None st = (None, st)"
| "clutter_event_copy (Some event) st =
     (let (new_event, st1) = clutter_event_new CLUTTER_NOTHING st
      in (Some new_event,
          (case event_at st1 event of
             None \<Rightarrow> st1
           | Some v \<Rightarrow> event_assign st1 new_event v)))"

fun clutter_event_free :: "pointer option \<Rightarrow> event_store \<Rightarrow> event_store" where
  "clutter_event_free None st = st"
| "clutter_event_free (Some event) st =
     st\<lparr>cells := (cells st)[event := None],
        event_hash := map_option (\<lambda>h. h - {event}) (event_hash st)\<rparr>"

subsection \<open>The event queue\<close>

text \<open>
  A \<open>GQueue\<close> is the list of its elements, head first; the four GLib functions the
  source calls are the list operations of their names. The queue owns the events pushed
  on it, so it holds their values.
\<close>

definition g_queue_push_head :: "'a list \<Rightarrow> 'a \<Rightarrow> 'a list" where
  "g_queue_push_head q x = x # q"

definition g_queue_pop_tail :: "'a list \<Rightarrow> 'a option \<times> 'a list" where
  "g_queue_pop_tail q = (if q = [] then (None, q) else (Some (last q), butlast q))"

definition g_queue_peek_tail :: "'a list \<Rightarrow> 'a option" where
  "g_queue_peek_tail q = (if q = [] then None else Some (last q))"

definition g_queue_is_empty :: "'a list \<Rightarrow> bool" where
  "g_queue_is_empty q = (q = [])"

text \<open>
  The backend members the source uses. The two-element arrays \<open>button_click_time\<close>,
  \<open>button_number\<close>, \<open>button_x\<close> and \<open>button_y\<close> are a field per element (\<open>_0\<close> and
  \<open>_1\<close>). Times, buttons and the two settings are 32-bit unsigned, as the event's time
  and button are: the sum \<open>button_click_time[i] + k * double_click_time\<close> wraps around,
  and the \<open>-1\<close> stored in \<open>button_number\<close> is the word of all ones.
\<close>

record ClutterBackend =
  events_queue :: "ClutterEvent list option"
  double_click_time :: guint
  double_click_distance :: guint
  button_click_time_0 :: guint32
  button_click_time_1 :: guint32
  button_number_0 :: guint32
  button_number_1 :: guint32
  button_x_0 :: gint
  button_x_1 :: gint
  button_y_0 :: gint
  button_y_1 :: gint

text \<open>The source's names start with an underscore (\<open>_clutter_event_queue_push\<close>, ...),
  which a constant's name cannot: it is dropped.\<close>

definition clutter_event_queue_push :: "ClutterBackend \<Rightarrow> ClutterEvent \<Rightarrow> ClutterBackend" where
  "clutter_event_queue_push backend event =
     (let q = (case events_queue backend of None \<Rightarrow> [] | Some q \<Rightarrow> q)
      in backend\<lparr>events_queue := Some (g_queue_push_head q event)\<rparr>)"

definition clutter_event_queue_pop :: "ClutterBackend \<Rightarrow> ClutterEvent option \<times> ClutterBackend" where
  "clutter_event_queue_pop backend =
     (case events_queue backend of
        None \<Rightarrow> (None, backend)
      | Some q \<Rightarrow> (let (r, q') = g_queue_pop_tail q in (r, backend\<lparr>events_queue := Some q'\<rparr>)))"

definition clutter_event_queue_peek :: "ClutterBackend \<Rightarrow> ClutterEvent option" where
  "clutter_event_queue_peek backend =
     (case events_queue backend of None \<Rightarrow> None | Some q \<Rightarrow> g_queue_peek_tail q)"

definition clutter_event_queue_check_pending :: "ClutterBackend \<Rightarrow> bool" where
  "clutter_event_queue_check_pending backend =
     (case events_queue backend of None \<Rightarrow> False | Some q \<Rightarrow> g_queue_is_empty q = False)"

text \<open>\<open>clutter_event_put\<close> pushes a copy of the event, which is its value.\<close>

definition clutter_event_put :: "ClutterBackend \<Rightarrow> ClutterEvent \<Rightarrow> ClutterBackend" where
  "clutter_event_put backend event = clutter_event_queue_push backend event"

text \<open>A run of queue operations from a backend: the backend it leaves and what each pop
  returned, in order.\<close>

datatype queue_op = Push ClutterEvent | Pop

fun run_queue_ops :: "ClutterBackend \<Rightarrow> queue_op list \<Rightarrow> ClutterBackend \<times> ClutterEvent option list" where
  "run_queue_ops backend [] = (backend, [])"
| "run_queue_ops backend (Push e # ops) = run_queue_ops (clutter_event_queue_push backend e) ops"
| "run_queue_ops backend (Pop # ops) =
     (let (r, backend1) = clutter_event_queue_pop backend;
          (backend2, rs) = run_queue_ops backend1 ops
      in (backend2, r # rs))"

text \<open>The events a run pushes, in order; the events its pops returned; the events a
  backend's queue holds, oldest first.\<close>

fun pushed :: "queue_op list \<Rightarrow> ClutterEvent list" where
  "pushed [] = []"
| "pushed (Push e # ops) = e # pushed ops"
| "pushed (Pop # ops) = pushed ops"

fun returned :: "ClutterEvent option list \<Rightarrow> ClutterEvent list" where
  "returned [] = []"
| "returned (None # rs) = returned rs"
| "returned (Some e # rs) = e # returned rs"

definition pending :: "ClutterBackend \<Rightarrow> ClutterEvent list" where
  "pending backend = (case events_queue backend of None \<Rightarrow> [] | Some q \<Rightarrow> rev q)"

subsection \<open>Click synthesis\<close>

text \<open>
  Modelled from the spec: \<open>clutter_backend_put_event\<close> is called by
  \<open>_clutter_synthesize_click\<close> and defined in no source file here. The spec has the
  synthetic event delivered through the same injection path as a native event, the push
  of a copy onto the backend's queue that \<open>clutter_event_put\<close> does.
\<close>

definition clutter_backend_put_event :: "ClutterBackend \<Rightarrow> ClutterEvent \<Rightarrow> ClutterBackend" where
  "clutter_backend_put_event backend event = clutter_event_queue_push backend event"

definition clutter_synthesize_click :: "ClutterBackend \<Rightarrow> ClutterEvent \<Rightarrow> int \<Rightarrow> ClutterBackend" where
  "clutter_synthesize_click backend event n_clicks =
     (let temp_event = event;
          temp_event = temp_event\<lparr>type := (if n_clicks = 2 then CLUTTER_2BUTTON_PRESS
                                            else CLUTTER_3BUTTON_PRESS)\<rparr>
      in clutter_backend_put_event backend temp_event)"

text \<open>
  \<open>ABS (a - b) <= backend->double_click_distance\<close> compares a \<open>gint\<close> that is not
  negative with a \<open>guint\<close>: the comparison of their values. (The difference of two
  coordinates is taken to be in the range of \<open>gint\<close>; C leaves the other case undefined.)
\<close>

definition within_distance :: "gint \<Rightarrow> gint \<Rightarrow> guint \<Rightarrow> bool" where
  "within_distance a b d = (\<bar>a - b\<bar> \<le> uint d)"

definition clutter_event_button_generate :: "ClutterBackend \<Rightarrow> ClutterEvent \<Rightarrow> ClutterBackend" where
  "clutter_event_button_generate backend event =
     (if button_time event < button_click_time_1 backend + 2 * double_click_time backend \<and>
         button_button event = button_number_1 backend \<and>
         within_distance (button_x event) (button_x_1 backend) (double_click_distance backend) \<and>
         within_distance (button_y event) (button_y_1 backend) (double_click_distance backend)
      then
        (clutter_synthesize_click backend event 3)
          \<lparr> button_click_time_1 := 0,
            button_click_time_0 := 0,
            button_number_1 := - 1,
            button_number_0 := - 1,
            button_x_1 := 0, button_x_0 := 0,
            button_y_1 := 0, button_y_0 := 0 \<rparr>
      else if button_time event < button_click_time_0 backend + double_click_time backend \<and>
         button_button event = button_number_0 backend \<and>
         within_distance (button_x event) (button_x_0 backend) (double_click_distance backend) \<and>
         within_distance (button_y event) (button_y_0 backend) (double_click_distance backend)
      then
        (clutter_synthesize_click backend event 2)
          \<lparr> button_click_time_1 := button_click_time_0 backend,
            button_click_time_0 := button_time event,
            button_number_1 := button_number_0 backend,
            button_number_0 := button_button event,
            button_x_1 := button_x_0 backend,
            button_x_0 := button_x event,
            button_y_1 := button_y_0 backend,
            button_y_0 := button_y event \<rparr>
      else
        backend
          \<lparr> button_click_time_1 := 0,
            button_click_time_0 := button_time event,
            button_number_1 := - 1,
            button_number_0 := button_button event,
            button_x_1 := 0,
            button_x_0 := button_x event,
            button_y_1 := 0,
            button_y_0 := button_y event \<rparr>)"

subsection \<open>The rule of the specification\<close>

text \<open>
  The three-branch rule as the specification words it, on the click state alone: a slot
  is a press record (timestamp, button index, x, y), the empty slot has the sentinel
  button \<open>-1\<close>, and the window tests are \<open>t - S.time < k * DoubleClickInterval\<close> on the
  numbers the timestamps stand for. The result is the kind of the synthetic event, if
  one is emitted, and the slots \<open>(S0, S1)\<close> after the press.
\<close>

record click_slot =
  slot_time :: guint32
  slot_button :: guint32
  slot_x :: gint
  slot_y :: gint

definition empty_slot :: click_slot where
  "empty_slot = \<lparr>slot_time = 0, slot_button = - 1, slot_x = 0, slot_y = 0\<rparr>"

definition slot_of_press :: "ClutterEvent \<Rightarrow> click_slot" where
  "slot_of_press P = \<lparr>slot_time = button_time P, slot_button = button_button P,
                      slot_x = button_x P, slot_y = button_y P\<rparr>"

definition spec_window :: "int \<Rightarrow> guint \<Rightarrow> guint \<Rightarrow> ClutterEvent \<Rightarrow> click_slot \<Rightarrow> bool" where
  "spec_window k DoubleClickInterval ClickDistance P S =
     (uint (button_time P) - uint (slot_time S) < k * uint DoubleClickInterval \<and>
      button_button P = slot_button S \<and>
      \<bar>button_x P - slot_x S\<bar> \<le> uint ClickDistance \<and>
      \<bar>button_y P - slot_y S\<bar> \<le> uint ClickDistance)"

definition spec_click_rule ::
  "guint \<Rightarrow> guint \<Rightarrow> ClutterEvent \<Rightarrow> click_slot \<times> click_slot \<Rightarrow>
   ClutterEventType option \<times> click_slot \<times> click_slot" where
  "spec_click_rule DoubleClickInterval ClickDistance P S =
     (case S of (S0, S1) \<Rightarrow>
        if spec_window 2 DoubleClickInterval ClickDistance P S1
        then (Some CLUTTER_3BUTTON_PRESS, empty_slot, empty_slot)
        else if spec_window 1 DoubleClickInterval ClickDistance P S0
        then (Some CLUTTER_2BUTTON_PRESS, slot_of_press P, S0)
        else (None, slot_of_press P, empty_slot))"

text \<open>The click state \<open>(S0, S1)\<close> of a backend.\<close>

definition click_state :: "ClutterBackend \<Rightarrow> click_slot \<times> click_slot" where
  "click_state backend =
     (\<lparr>slot_time = button_click_time_0 backend, slot_button = button_number_0 backend,
       slot_x = button_x_0 backend, slot_y = button_y_0 backend\<rparr>,
      \<lparr>slot_time = button_click_time_1 backend, slot_button = button_number_1 backend,
       slot_x = button_x_1 backend, slot_y = button_y_1 backend\<rparr>)"

section \<open>The Android application (clutter-android-application.c)\<close>

subsection \<open>Native input records\<close>

text \<open>
  An \<open>AInputEvent\<close> is opaque to the source, which reads it through the accessors of
  the Android NDK: the record has a field for each accessor called, holding what it
  returns. \<open>AMotionEvent_getEventTime\<close> returns an \<open>int64_t\<close>, the others an \<open>int32_t\<close>.
  \<open>AMotionEvent_getX\<close> and \<open>AMotionEvent_getY\<close> (of pointer index 0) return a \<open>float\<close>;
  the field holds the coordinate that the assignment to the event stores.

  Modelled from the spec: the key state of a key record, one of the \<open>AKEY_STATE\<close>
  values below. The specification lists it among the fields of a native input record
  (the action/state enumerant, beside the modifier/meta state) and has the key
  translator map it; no accessor that the source calls returns it, so no function here
  reads \<open>key_state\<close>.
\<close>

record AInputEvent =
  AInputEvent_getType :: "32 word"
  AMotionEvent_getAction :: "32 word"
  AMotionEvent_getEventTime :: "64 word"
  AMotionEvent_getX :: gint
  AMotionEvent_getY :: gint
  AMotionEvent_getMetaState :: "32 word"
  AKeyEvent_getKeyCode :: "32 word"
  key_state :: "32 word"

text \<open>The enumerators of android/input.h that the source names, with their values
  there, and \<open>CLUTTER_BUTTON1_MASK\<close> of the library's modifier type (\<open>1 << 8\<close>).\<close>

definition AINPUT_EVENT_TYPE_KEY :: "32 word" where
  "AINPUT_EVENT_TYPE_KEY = 1"

definition AINPUT_EVENT_TYPE_MOTION :: "32 word" where
  "AINPUT_EVENT_TYPE_MOTION = 2"

definition AMOTION_EVENT_ACTION_MASK :: "32 word" where
  "AMOTION_EVENT_ACTION_MASK = 0xff"

definition AMOTION_EVENT_ACTION_DOWN :: "32 word" where
  "AMOTION_EVENT_ACTION_DOWN = 0"

definition AMOTION_EVENT_ACTION_UP :: "32 word" where
  "AMOTION_EVENT_ACTION_UP = 1"

definition AMOTION_EVENT_ACTION_MOVE :: "32 word" where
  "AMOTION_EVENT_ACTION_MOVE = 2"

definition AKEY_STATE_UP :: "32 word" where
  "AKEY_STATE_UP = 0"

definition AKEY_STATE_DOWN :: "32 word" where
  "AKEY_STATE_DOWN = 1"

definition AKEY_STATE_VIRTUAL :: "32 word" where
  "AKEY_STATE_VIRTUAL = 2"

definition CLUTTER_BUTTON1_MASK :: guint32 where
  "CLUTTER_BUTTON1_MASK = push_bit 8 1"

subsection \<open>The translators\<close>

text \<open>
  The core pointer device, which \<open>translate_motion_event\<close> looks up and whose stage it
  sets: its address and the stage set on it.
\<close>

record ClutterInputDevice =
  device_pointer :: pointer
  device_stage :: "pointer option"

text \<open>
  Both translators write into the event they are given and return a \<open>gboolean\<close>: the
  result is that flag and the event as it is left. The assignment of the \<open>int64_t\<close> event
  time to the 32-bit time of the event keeps its low 32 bits (\<open>ucast\<close>). The
  \<open>g_message\<close> of the default branch is left out.
\<close>

definition translate_motion_event ::
  "ClutterInputDevice \<Rightarrow> ClutterEvent \<Rightarrow> AInputEvent \<Rightarrow> ClutterInputDevice \<times> bool \<times> ClutterEvent" where
  "translate_motion_event pointer_device event a_event =
     (let pointer_device = pointer_device\<lparr>device_stage := any_stage event\<rparr>;
          action = AMotionEvent_getAction a_event;
          sel = action AND AMOTION_EVENT_ACTION_MASK
      in if sel = AMOTION_EVENT_ACTION_DOWN then
           (pointer_device, True,
            event\<lparr> type := CLUTTER_BUTTON_PRESS,
                   button_button := 1,
                   button_click_count := 1,
                   button_device := Some (device_pointer pointer_device),
                   button_time := ucast (AMotionEvent_getEventTime a_event),
                   button_x := AMotionEvent_getX a_event,
                   button_y := AMotionEvent_getY a_event \<rparr>)
         else if sel = AMOTION_EVENT_ACTION_UP then
           (pointer_device, True,
            event\<lparr> type := CLUTTER_BUTTON_RELEASE,
                   button_button := 1,
                   button_click_count := 1,
                   button_device := Some (device_pointer pointer_device),
                   button_time := ucast (AMotionEvent_getEventTime a_event),
                   button_x := AMotionEvent_getX a_event,
                   button_y := AMotionEvent_getY a_event \<rparr>)
         else if sel = AMOTION_EVENT_ACTION_MOVE then
           (pointer_device, True,
            event\<lparr> type := CLUTTER_MOTION,
                   motion_device := Some (device_pointer pointer_device),
                   motion_modifier_state := CLUTTER_BUTTON1_MASK,
                   motion_time := ucast (AMotionEvent_getEventTime a_event),
                   motion_x := AMotionEvent_getX a_event,
                   motion_y := AMotionEvent_getY a_event \<rparr>)
         else (pointer_device, False, event))"

text \<open>The state that \<open>translate_key_event\<close> switches on is what
  \<open>AMotionEvent_getMetaState\<close> returns for the record.\<close>

definition translate_key_event :: "ClutterEvent \<Rightarrow> AInputEvent \<Rightarrow> bool \<times> ClutterEvent" where
  "translate_key_event event a_event =
     (let state = AMotionEvent_getMetaState a_event;
          event = event\<lparr>key_unicode_value := AKeyEvent_getKeyCode a_event\<rparr>
      in if state = AKEY_STATE_UP then (True, event\<lparr>type := CLUTTER_KEY_RELEASE\<rparr>)
         else if state = AKEY_STATE_DOWN \<or> state = AKEY_STATE_VIRTUAL
         then (True, event\<lparr>type := CLUTTER_KEY_PRESS\<rparr>)
         else (False, event))"

subsection \<open>The input handler\<close>

text \<open>
  Modelled from the spec: \<open>_clutter_event_push (event, FALSE)\<close> is defined in no source
  file here. The spec's \<open>push_event\<close> injects the event into the queue for later
  consumption; with \<open>FALSE\<close> the event itself, not a copy, is queued.
\<close>

definition clutter_event_push :: "ClutterBackend \<Rightarrow> ClutterEvent \<Rightarrow> bool \<Rightarrow> ClutterBackend" where
  "clutter_event_push backend event do_copy = clutter_event_queue_push backend event"

text \<open>What the handler reads and changes: the default stage of the stage manager, the
  core pointer device and the backend with its queue. The event it creates is the value
  \<open>clutter_event_new\<close> leaves in a new block; when the record is refused the event is
  neither queued nor freed. Its two \<open>g_message\<close> calls are left out.\<close>

record input_context =
  default_stage :: "pointer option"
  core_pointer_device :: ClutterInputDevice
  context_backend :: ClutterBackend

definition clutter_android_handle_input :: "input_context \<Rightarrow> AInputEvent \<Rightarrow> input_context \<times> 32 word" where
  "clutter_android_handle_input ctx a_event =
     (let event = new_event_value CLUTTER_NOTHING;
          event = event\<lparr>any_stage := default_stage ctx\<rparr>;
          (device, process, event) =
            (if AInputEvent_getType a_event = AINPUT_EVENT_TYPE_KEY
             then (core_pointer_device ctx, translate_key_event event a_event)
             else if AInputEvent_getType a_event = AINPUT_EVENT_TYPE_MOTION
             then translate_motion_event (core_pointer_device ctx) event a_event
             else (core_pointer_device ctx, False, event))
      in (ctx\<lparr> core_pointer_device := device,
                context_backend := (if process then clutter_event_push (context_backend ctx) event False
                                    else context_backend ctx) \<rparr>,
          if process then 1 else 0))"

subsection \<open>The command dispatcher\<close>

text \<open>
  The commands of android_native_app_glue.h. The dispatcher reads the native window of
  the \<open>android_app\<close> (\<open>NULL\<close> or a window with its current width and height) and the two
  members of the application object in its \<open>userData\<close>. From the toolkit around it, it
  reads the size of the default stage and what the emission of the \<open>ready\<close> signal
  returns in \<open>initialized\<close>.
\<close>

datatype app_cmd =
    APP_CMD_INPUT_CHANGED
  | APP_CMD_INIT_WINDOW
  | APP_CMD_TERM_WINDOW
  | APP_CMD_WINDOW_RESIZED
  | APP_CMD_WINDOW_REDRAW_NEEDED
  | APP_CMD_CONTENT_RECT_CHANGED
  | APP_CMD_GAINED_FOCUS
  | APP_CMD_LOST_FOCUS
  | APP_CMD_CONFIG_CHANGED
  | APP_CMD_LOW_MEMORY
  | APP_CMD_START
  | APP_CMD_RESUME
  | APP_CMD_SAVE_STATE
  | APP_CMD_PAUSE
  | APP_CMD_STOP
  | APP_CMD_DESTROY

record ANativeWindow =
  ANativeWindow_getWidth :: int
  ANativeWindow_getHeight :: int

record ClutterAndroidApplication =
  have_window :: bool
  wait_for_window :: "pointer option"

record android_app =
  window :: "ANativeWindow option"
  userData :: ClutterAndroidApplication

record toolkit =
  clutter_actor_get_width :: real
  clutter_actor_get_height :: real
  ready_initialized :: bool

text \<open>
  The size of the stage is a \<open>gfloat\<close> (the source prints it with \<open>%f\<close>), held here as
  the number it stands for. Where the source compares it with an \<open>int32_t\<close>, or passes
  an \<open>int32_t\<close> to \<open>clutter_actor_set_size\<close>, C converts the integer to \<open>float\<close>: to the
  nearest number with a significand of 24 bits, a tie going to the even significand.
  \<open>excess_bits m\<close> is the number of low bits of \<open>m\<close> that do not fit in 24 bits.
\<close>

function excess_bits :: "nat \<Rightarrow> nat" where
  "excess_bits m = (if m < 2 ^ 24 then 0 else Suc (excess_bits (m div 2)))"
  by pat_completeness auto
termination
  by (relation "measure (\<lambda>m. m)") auto

definition gfloat_of_int :: "int \<Rightarrow> real" where
  "gfloat_of_int n =
     (let m = nat \<bar>n\<bar>;
          e = excess_bits m;
          q = m div 2 ^ e;
          r = m mod 2 ^ e;
          q = (if 2 * r > 2 ^ e \<or> (2 * r = 2 ^ e \<and> odd q) then q + 1 else q)
      in of_int (sgn n * int (q * 2 ^ e)))"

text \<open>
  The calls the dispatcher makes, in order, are its result together with the state it
  leaves: \<open>g_message\<close> with its format string, \<open>g_main_loop_quit\<close> with the loop,
  \<open>ANativeActivity_setWindowFlags\<close>, \<open>clutter_actor_set_size\<close> (two \<open>gfloat\<close>s) and
  \<open>cogl_android_onscreen_update_size\<close> (two \<open>int\<close>s) with the numbers passed. Nothing follows
  \<open>exit\<close>: the process has ended.
\<close>

datatype call =
    g_message string
  | ANativeActivity_setWindowFlags "32 word" "32 word"
  | g_signal_emit_READY
  | g_main_loop_quit pointer
  | clutter_main_quit
  | exit int
  | clutter_actor_set_size real real
  | cogl_android_onscreen_update_size int int
  | clutter_actor_queue_relayout

definition AWINDOW_FLAG_FULLSCREEN :: "32 word" where
  "AWINDOW_FLAG_FULLSCREEN = 0x400"

fun clutter_android_handle_cmd ::
  "toolkit \<Rightarrow> android_app \<Rightarrow> app_cmd \<Rightarrow> android_app \<times> call list" where
  "clutter_android_handle_cmd tk app APP_CMD_INIT_WINDOW =
     (case window app of
        None \<Rightarrow> (app, [g_message ''command: INIT_WINDOW''])
      | Some w \<Rightarrow>
          (let application = userData app;
               initialized = ready_initialized tk;
               application = (if initialized then application\<lparr>have_window := True\<rparr>
                              else application)
           in (app\<lparr>userData := application\<rparr>,
               [g_message ''command: INIT_WINDOW'',
                ANativeActivity_setWindowFlags 0 AWINDOW_FLAG_FULLSCREEN,
                g_signal_emit_READY] @
               (case wait_for_window application of
                  None \<Rightarrow> []
                | Some loop \<Rightarrow> [g_message ''Waking up the waiting main loop'',
                               g_main_loop_quit loop]))))"
| "clutter_android_handle_cmd tk app APP_CMD_TERM_WINDOW =
     (app, [g_message ''command: TERM_WINDOW''] @
           (case wait_for_window (userData app) of
              Some loop \<Rightarrow> [g_main_loop_quit loop]
            | None \<Rightarrow> [clutter_main_quit]) @
           [exit 0])"
| "clutter_android_handle_cmd tk app APP_CMD_GAINED_FOCUS =
     (app, [g_message ''command: GAINED_FOCUS''])"
| "clutter_android_handle_cmd tk app APP_CMD_WINDOW_RESIZED =
     (case window app of
        None \<Rightarrow> (app, [g_message ''command: window resized!''])
      | Some w \<Rightarrow>
          (let width = ANativeWindow_getWidth w;
               height = ANativeWindow_getHeight w
           in (app, [g_message ''command: window resized!'',
                     g_message ''resizing stage @ %ix%i'',
                     clutter_actor_set_size (gfloat_of_int width) (gfloat_of_int height)])))"
| "clutter_android_handle_cmd tk app APP_CMD_WINDOW_REDRAW_NEEDED =
     (case window app of
        None \<Rightarrow> (app, [g_message ''command: REDRAW_NEEDED''])
      | Some w \<Rightarrow>
          (let width = ANativeWindow_getWidth w;
               height = ANativeWindow_getHeight w
           in (app, [g_message ''command: REDRAW_NEEDED'',
                     g_message ''stage size %fx%f''] @
                    (if clutter_actor_get_width tk \<noteq> gfloat_of_int width \<or>
                        clutter_actor_get_height tk \<noteq> gfloat_of_int height
                     then [g_message ''resizing stage @ %ix%i'',
                           cogl_android_onscreen_update_size width height,
                           clutter_actor_queue_relayout]
                     else []))))"
| "clutter_android_handle_cmd tk app APP_CMD_CONTENT_RECT_CHANGED =
     (app, [g_message ''command: CONTENT_RECT_CHANGED''])"
| "clutter_android_handle_cmd tk app APP_CMD_LOST_FOCUS =
     (app, [g_message ''command: LOST_FOCUS''])"
| "clutter_android_handle_cmd tk app APP_CMD_START =
     (app, [g_message ''command: START''])"
| "clutter_android_handle_cmd tk app APP_CMD_STOP =
     (app, [g_message ''command: STOP''])"
| "clutter_android_handle_cmd tk app APP_CMD_PAUSE =
     (app, [g_message ''command: PAUSE''])"
| "clutter_android_handle_cmd tk app APP_CMD_DESTROY =
     (app, [g_message ''command: PAUSE''])"
| "clutter_android_handle_cmd tk app _ = (app, [])"

section \<open>Example inputs\<close>

text \<open>Concrete inputs at which the properties below are evaluated: a small sorted key
  symbol table, a store with one live event, a backend with the settings of the
  specification's click example, a button press, native records (the key records are
  those of a key that is down, with a given meta state), and the dispatcher's
  surroundings with a 480 by 800 stage.\<close>

definition tab3 :: "keysym_entry list" where
  "tab3 = [\<lparr>keysym = 0x01a1, ucs = 0x0104\<rparr>, \<lparr>keysym = 0x01a2, ucs = 0x02d8\<rparr>,
           \<lparr>keysym = 0x01a3, ucs = 0x0141\<rparr>]"

definition press :: "guint32 \<Rightarrow> guint32 \<Rightarrow> gint \<Rightarrow> gint \<Rightarrow> ClutterEvent" where
  "press t b x y = (new_event_value CLUTTER_BUTTON_PRESS)
      \<lparr>button_time := t, button_x := x, button_y := y, button_button := b,
       button_click_count := 1\<rparr>"

definition store1 :: event_store where
  "store1 = \<lparr>cells = [None, Some (press 100 1 10 20)], event_hash = Some {1}\<rparr>"

definition backend0 :: ClutterBackend where
  "backend0 = \<lparr> events_queue = None, double_click_time = 250, double_click_distance = 5,
      button_click_time_0 = 0, button_click_time_1 = 0,
      button_number_0 = - 1, button_number_1 = - 1,
      button_x_0 = 0, button_x_1 = 0, button_y_0 = 0, button_y_1 = 0 \<rparr>"

definition pointer0 :: ClutterInputDevice where
  "pointer0 = \<lparr>device_pointer = 1, device_stage = None\<rparr>"

definition fresh_event :: ClutterEvent where
  "fresh_event = (new_event_value CLUTTER_NOTHING)\<lparr>any_stage := Some 2\<rparr>"

definition context0 :: input_context where
  "context0 = \<lparr>default_stage = Some 2, core_pointer_device = pointer0,
                context_backend = backend0\<rparr>"

definition motion_record :: "32 word \<Rightarrow> AInputEvent" where
  "motion_record act = \<lparr> AInputEvent_getType = AINPUT_EVENT_TYPE_MOTION,
      AMotionEvent_getAction = act, AMotionEvent_getEventTime = 100,
      AMotionEvent_getX = 10, AMotionEvent_getY = 20,
      AMotionEvent_getMetaState = 1, AKeyEvent_getKeyCode = 0, key_state = AKEY_STATE_UP \<rparr>"

definition key_record :: "32 word \<Rightarrow> AInputEvent" where
  "key_record st = \<lparr> AInputEvent_getType = AINPUT_EVENT_TYPE_KEY,
      AMotionEvent_getAction = 0, AMotionEvent_getEventTime = 100,
      AMotionEvent_getX = 0, AMotionEvent_getY = 0,
      AMotionEvent_getMetaState = st, AKeyEvent_getKeyCode = 29,
      key_state = AKEY_STATE_DOWN \<rparr>"

definition toolkit0 :: toolkit where
  "toolkit0 = \<lparr>clutter_actor_get_width = 480, clutter_actor_get_height = 800,
                ready_initialized = True\<rparr>"

definition app_with :: "ANativeWindow option \<Rightarrow> pointer option \<Rightarrow> android_app" where
  "app_with w loop = \<lparr>window = w, userData = \<lparr>have_window = False, wait_for_window = loop\<rparr>\<rparr>"

definition native_window :: "int \<Rightarrow> int \<Rightarrow> ANativeWindow" where
  "native_window w h = \<lparr>ANativeWindow_getWidth = w, ANativeWindow_getHeight = h\<rparr>"

section \<open>Properties of the accessors and of the key symbol lookup\<close>

declare keysym_search.simps [simp del]

declare excess_bits.simps [simp del]

text \<open>
  Claim C10. For an event of kind \<open>CLUTTER_3BUTTON_PRESS\<close> the accessors fall through to
  their defaults: the time is \<open>CLUTTER_CURRENT_TIME\<close>, the modifier state 0 and the
  coordinates (0, 0). For an event of kind \<open>CLUTTER_2BUTTON_PRESS\<close> they return the time,
  the modifier state and the coordinates stored in the button view.
\<close>

theorem triple_press_accessors_default:
  "(type e = CLUTTER_3BUTTON_PRESS \<longrightarrow>
      clutter_event_get_time (Some e) = CLUTTER_CURRENT_TIME \<and>
      clutter_event_get_state (Some e) = 0 \<and>
      clutter_event_get_coords (Some e) = Some (0, 0)) \<and>
   (type e = CLUTTER_2BUTTON_PRESS \<longrightarrow>
      clutter_event_get_time (Some e) = button_time e \<and>
      clutter_event_get_state (Some e) = button_modifier_state e \<and>
      clutter_event_get_coords (Some e) = Some (button_x e, button_y e))"
  by simp

text \<open>The same press at time 150 and (1, 2), once as a triple and once as a double
  press.\<close>

theorem triple_press_accessors_default_witness:
  "type ((press 150 1 1 2)\<lparr>type := CLUTTER_3BUTTON_PRESS\<rparr>) = CLUTTER_3BUTTON_PRESS \<and>
   clutter_event_get_time (Some ((press 150 1 1 2)\<lparr>type := CLUTTER_3BUTTON_PRESS\<rparr>)) = 0 \<and>
   clutter_event_get_coords (Some ((press 150 1 1 2)\<lparr>type := CLUTTER_3BUTTON_PRESS\<rparr>)) = Some (0, 0) \<and>
   type ((press 150 1 1 2)\<lparr>type := CLUTTER_2BUTTON_PRESS\<rparr>) = CLUTTER_2BUTTON_PRESS \<and>
   clutter_event_get_time (Some ((press 150 1 1 2)\<lparr>type := CLUTTER_2BUTTON_PRESS\<rparr>)) = 150 \<and>
   clutter_event_get_coords (Some ((press 150 1 1 2)\<lparr>type := CLUTTER_2BUTTON_PRESS\<rparr>)) = Some (1, 2)"
  using triple_press_accessors_default [of "(press 150 1 1 2)\<lparr>type := CLUTTER_3BUTTON_PRESS\<rparr>"]
    triple_press_accessors_default [of "(press 150 1 1 2)\<lparr>type := CLUTTER_2BUTTON_PRESS\<rparr>"]
  by (simp add: press_def CLUTTER_CURRENT_TIME_def)

subsection \<open>The binary search\<close>

text \<open>A search between two indices of the table returns 0 when no entry between them has
  the key symbol. This needs no order on the table.\<close>

lemma keysym_search_miss:
  "0 \<le> lo \<Longrightarrow> hi < int (length tab) \<Longrightarrow>
   (\<forall>i. lo \<le> int i \<and> int i \<le> hi \<longrightarrow> keysym (tab ! i) \<noteq> keyval) \<Longrightarrow>
   keysym_search tab keyval lo hi = 0"
proof (induction tab keyval lo hi rule: keysym_search.induct)
  case (1 tab keyval imin imax)
  show ?case
  proof (cases "imax \<ge> imin")
    case False
    then show ?thesis by (simp add: keysym_search.simps)
  next
    case True
    define mid where "mid = (imin + imax) div 2"
    have mid: "imin \<le> mid" "mid \<le> imax" using True by (auto simp: mid_def)
    have "int (nat mid) = mid" using mid "1.prems"(1) by simp
    then have ne: "keysym (tab ! nat mid) \<noteq> keyval"
      using "1.prems"(3) mid by metis
    show ?thesis
    proof (cases "keysym (tab ! nat mid) < keyval")
      case lt: True
      have "keysym_search tab keyval (mid + 1) imax = 0"
        using "1.IH"(1)[OF True mid_def lt] "1.prems" mid by auto
      then show ?thesis using True lt
        by (subst keysym_search.simps) (simp add: mid_def Let_def)
    next
      case nlt: False
      then have gt: "keysym (tab ! nat mid) > keyval" using ne by auto
      have "keysym_search tab keyval imin (mid - 1) = 0"
        using "1.IH"(2)[OF True mid_def nlt gt] "1.prems" mid by auto
      then show ?thesis using True nlt gt
        by (subst keysym_search.simps) (simp add: mid_def Let_def)
    qed
  qed
qed

text \<open>In a sorted table, a search between two indices that enclose an entry with the key
  symbol returns the Unicode value of an entry with that key symbol.\<close>

lemma keysym_search_hit:
  "sorted (map keysym tab) \<Longrightarrow> 0 \<le> lo \<Longrightarrow> hi < int (length tab) \<Longrightarrow>
   lo \<le> int i \<Longrightarrow> int i \<le> hi \<Longrightarrow> keysym (tab ! i) = keyval \<Longrightarrow>
   \<exists>j. lo \<le> int j \<and> int j \<le> hi \<and> keysym (tab ! j) = keyval \<and>
       keysym_search tab keyval lo hi = ucs (tab ! j)"
proof (induction tab keyval lo hi rule: keysym_search.induct)
  case (1 tab keyval imin imax)
  have True: "imax \<ge> imin" using "1.prems" by linarith
  define mid where "mid = (imin + imax) div 2"
  have mid: "imin \<le> mid" "mid \<le> imax" using True by (auto simp: mid_def)
  have nm: "int (nat mid) = mid" using mid "1.prems"(2) by simp
  have len: "nat mid < length tab" "i < length tab" using mid "1.prems" by auto
  have mono: "\<And>a b. a \<le> b \<Longrightarrow> b < length tab \<Longrightarrow> keysym (tab ! a) \<le> keysym (tab ! b)"
    using "1.prems"(1) by (simp add: sorted_iff_nth_mono)
  show ?case
  proof (cases "keysym (tab ! nat mid) < keyval")
    case lt: True
    have "mid < int i"
    proof (rule ccontr)
      assume "\<not> mid < int i"
      then have "i \<le> nat mid" using nm by linarith
      then have "keysym (tab ! i) \<le> keysym (tab ! nat mid)" using mono len by blast
      then show False using lt "1.prems"(6) by simp
    qed
    then obtain j where "mid + 1 \<le> int j \<and> int j \<le> imax \<and> keysym (tab ! j) = keyval \<and>
       keysym_search tab keyval (mid + 1) imax = ucs (tab ! j)"
      using "1.IH"(1)[OF True mid_def lt] "1.prems" mid by auto
    moreover have "keysym_search tab keyval imin imax = keysym_search tab keyval (mid + 1) imax"
      using True lt by (subst keysym_search.simps) (simp add: mid_def Let_def)
    ultimately show ?thesis using mid by (intro exI[of _ j]) auto
  next
    case nlt: False
    show ?thesis
    proof (cases "keysym (tab ! nat mid) > keyval")
      case gt: True
      have "int i < mid"
      proof (rule ccontr)
        assume "\<not> int i < mid"
        then have "nat mid \<le> i" using nm by linarith
        then have "keysym (tab ! nat mid) \<le> keysym (tab ! i)" using mono len by blast
        then show False using gt "1.prems"(6) by simp
      qed
      then obtain j where "imin \<le> int j \<and> int j \<le> mid - 1 \<and> keysym (tab ! j) = keyval \<and>
         keysym_search tab keyval imin (mid - 1) = ucs (tab ! j)"
        using "1.IH"(2)[OF True mid_def nlt gt] "1.prems" mid by auto
      moreover have "keysym_search tab keyval imin imax = keysym_search tab keyval imin (mid - 1)"
        using True nlt gt by (subst keysym_search.simps) (simp add: mid_def Let_def)
      ultimately show ?thesis using mid by (intro exI[of _ j]) auto
    next
      case ngt: False
      then have eq: "keysym (tab ! nat mid) = keyval" using nlt by auto
      have "keysym_search tab keyval imin imax = ucs (tab ! nat mid)"
        using True nlt ngt by (subst keysym_search.simps) (simp add: mid_def Let_def)
      then show ?thesis using mid nm eq by (intro exI[of _ "nat mid"]) auto
    qed
  qed
qed

text \<open>The two masks of the source, read as the top byte and the low 24 bits.\<close>

lemma top_byte_mask: "(k AND 0xff000000 = 0x01000000) = (drop_bit 24 k = 1)" for k :: "32 word"
proof -
  have m: "(0xff000000 :: 32 word) = push_bit 24 (mask 8)" by (simp add: mask_eq_exp_minus_1)
  have "k AND 0xff000000 = push_bit 24 (drop_bit 24 k)"
    unfolding m by (rule bit_word_eqI) (auto simp: bit_simps)
  moreover have "(0x01000000 :: 32 word) = push_bit 24 1" by simp
  moreover have "(push_bit 24 (drop_bit 24 k) = push_bit 24 (1 :: 32 word)) = (drop_bit 24 k = 1)"
  proof
    assume a: "push_bit 24 (drop_bit 24 k) = push_bit 24 (1 :: 32 word)"
    have "drop_bit 24 (push_bit 24 (drop_bit 24 k)) = drop_bit 24 k"
      by (rule bit_word_eqI) (auto simp: bit_simps dest: bit_imp_le_length)
    moreover have "drop_bit 24 (push_bit 24 (1 :: 32 word)) = 1"
      by simp
    ultimately show "drop_bit 24 k = 1" using a by metis
  qed simp
  ultimately show ?thesis by metis
qed

lemma low24_mask: "k AND 0x00ffffff = take_bit 24 k" for k :: "32 word"
proof -
  have "(0x00ffffff :: 32 word) = mask 24" by (simp add: mask_eq_exp_minus_1)
  then show ?thesis by (simp add: take_bit_eq_mask)
qed

text \<open>
  Claim C9. For every key symbol \<open>k\<close> and every sorted table: in the Latin-1 ranges the
  lookup returns \<open>k\<close> itself; otherwise, when the top byte of \<open>k\<close> is \<open>0x01\<close>, it returns
  the low 24 bits of \<open>k\<close>; otherwise it searches the table and returns the Unicode value
  of an entry whose key symbol is \<open>k\<close> when there is one, and 0 when there is none.
\<close>

theorem clutter_keysym_to_unicode_lookup:
  assumes "sorted (map keysym tab)"
  shows "(latin1 k \<longrightarrow> clutter_keysym_to_unicode tab k = k) \<and>
         (\<not> latin1 k \<and> drop_bit 24 k = 1 \<longrightarrow> clutter_keysym_to_unicode tab k = take_bit 24 k) \<and>
         (\<not> latin1 k \<and> drop_bit 24 k \<noteq> 1 \<and> k \<in> keysym ` set tab \<longrightarrow>
            (\<exists>e \<in> set tab. keysym e = k \<and> clutter_keysym_to_unicode tab k = ucs e)) \<and>
         (\<not> latin1 k \<and> drop_bit 24 k \<noteq> 1 \<and> k \<notin> keysym ` set tab \<longrightarrow>
            clutter_keysym_to_unicode tab k = 0)"
proof (intro conjI impI)
  assume "latin1 k"
  then show "clutter_keysym_to_unicode tab k = k"
    by (simp add: clutter_keysym_to_unicode_def latin1_def)
next
  assume "\<not> latin1 k \<and> drop_bit 24 k = 1"
  then show "clutter_keysym_to_unicode tab k = take_bit 24 k"
    by (auto simp: clutter_keysym_to_unicode_def latin1_def top_byte_mask low24_mask)
next
  assume a: "\<not> latin1 k \<and> drop_bit 24 k \<noteq> 1 \<and> k \<in> keysym ` set tab"
  then obtain i where i: "i < length tab" "keysym (tab ! i) = k"
    by (auto simp: in_set_conv_nth)
  have s: "clutter_keysym_to_unicode tab k = keysym_search tab k 0 (int (length tab) - 1)"
    using a by (auto simp: clutter_keysym_to_unicode_def latin1_def top_byte_mask)
  obtain j where "0 \<le> int j \<and> int j \<le> int (length tab) - 1 \<and> keysym (tab ! j) = k \<and>
       keysym_search tab k 0 (int (length tab) - 1) = ucs (tab ! j)"
    using keysym_search_hit [OF assms, of 0 "int (length tab) - 1" i k] i by auto
  then show "\<exists>e \<in> set tab. keysym e = k \<and> clutter_keysym_to_unicode tab k = ucs e"
    using s by (intro bexI [of _ "tab ! j"]) auto
next
  assume a: "\<not> latin1 k \<and> drop_bit 24 k \<noteq> 1 \<and> k \<notin> keysym ` set tab"
  have s: "clutter_keysym_to_unicode tab k = keysym_search tab k 0 (int (length tab) - 1)"
    using a by (auto simp: clutter_keysym_to_unicode_def latin1_def top_byte_mask)
  have "\<forall>i. 0 \<le> int i \<and> int i \<le> int (length tab) - 1 \<longrightarrow> keysym (tab ! i) \<noteq> k"
  proof (intro allI impI)
    fix i assume "0 \<le> int i \<and> int i \<le> int (length tab) - 1"
    then have "i < length tab" by linarith
    then have "tab ! i \<in> set tab" by simp
    then show "keysym (tab ! i) \<noteq> k" using a by auto
  qed
  then show "clutter_keysym_to_unicode tab k = 0"
    using s keysym_search_miss [of 0 "int (length tab) - 1" tab k] by simp
qed

text \<open>On the three-entry table: a Latin-1 key symbol, a directly encoded one, an entry
  of the table and a key symbol the table does not have.\<close>

theorem clutter_keysym_to_unicode_lookup_witness:
  "sorted (map keysym tab3) \<and>
   clutter_keysym_to_unicode tab3 0x41 = 0x41 \<and>
   clutter_keysym_to_unicode tab3 0x01000416 = 0x416 \<and>
   clutter_keysym_to_unicode tab3 0x01a2 = 0x02d8 \<and>
   clutter_keysym_to_unicode tab3 0x01a4 = 0"
proof -
  have s: "sorted (map keysym tab3)" by (simp add: tab3_def)
  have d: "drop_bit 24 (0x01000416 :: 32 word) = 1" "drop_bit 24 (0x01a2 :: 32 word) \<noteq> 1"
     "drop_bit 24 (0x01a4 :: 32 word) \<noteq> 1" "take_bit 24 (0x01000416 :: 32 word) = 0x416"
    by (simp_all add: drop_bit_eq_div take_bit_eq_mod)
  show ?thesis
    using s clutter_keysym_to_unicode_lookup [OF s, of "0x41"]
      clutter_keysym_to_unicode_lookup [OF s, of "0x01000416"]
      clutter_keysym_to_unicode_lookup [OF s, of "0x01a2"]
      clutter_keysym_to_unicode_lookup [OF s, of "0x01a4"] d
    by (simp add: latin1_def tab3_def)
qed

section \<open>Properties of the store and of the queue\<close>

lemma event_at_new:
  "clutter_event_new ty st = (q, st') \<Longrightarrow>
     q = length (cells st) \<and> event_at st q = None \<and> event_at st' q = Some (new_event_value ty) \<and>
     (\<forall>r. r \<noteq> q \<longrightarrow> event_at st' r = event_at st r)"
  by (auto simp: clutter_event_new_def g_slice_new0_def event_assign_def event_at_def
        nth_append Let_def split: if_splits)

lemma event_at_assign:
  "event_at st q \<noteq> None \<Longrightarrow>
     event_at (event_assign st q v) r = (if r = q then Some v else event_at st r)"
  by (auto simp: event_assign_def event_at_def)

text \<open>
  Claim C5. For every event \<open>e\<close> at a live address \<open>p\<close>, \<open>clutter_event_copy\<close> returns a
  new address \<open>q\<close>, different from \<open>p\<close> and not in use before, whose block equals \<open>e\<close>
  in every field; every other block, that of \<open>e\<close> among them, is as it was; and
  whatever is afterwards written to the copy, every other block still is as it was.
\<close>

theorem clutter_event_copy_independent:
  assumes "event_at st p = Some e"
  shows "\<exists>q st'. clutter_event_copy (Some p) st = (Some q, st') \<and> q \<noteq> p \<and>
           event_at st q = None \<and> event_at st' q = Some e \<and>
           (\<forall>r. r \<noteq> q \<longrightarrow> event_at st' r = event_at st r) \<and>
           (\<forall>v r. event_at (event_assign st' q v) r = (if r = q then Some v else event_at st r))"
proof -
  obtain q st1 where n: "clutter_event_new CLUTTER_NOTHING st = (q, st1)" by fastforce
  note f = event_at_new [OF n]
  have qp: "q \<noteq> p" using f assms by auto
  have p1: "event_at st1 p = Some e" using f qp assms by simp
  define st' where "st' = event_assign st1 q e"
  have c: "clutter_event_copy (Some p) st = (Some q, st')"
    using n p1 by (simp add: st'_def)
  have live: "event_at st1 q \<noteq> None" using f by auto
  have a: "\<And>r. event_at st' r = (if r = q then Some e else event_at st r)"
    unfolding st'_def using event_at_assign [OF live] f by auto
  have live': "event_at st' q \<noteq> None" using a by simp
  have b: "\<And>v r. event_at (event_assign st' q v) r = (if r = q then Some v else event_at st r)"
    using event_at_assign [OF live'] a by auto
  show ?thesis using c qp f a b by (intro exI [of _ q] exI [of _ st']) auto
qed

text \<open>The press stored at address 1 is copied to address 2; overwriting the copy with
  the zero event leaves the press at address 1.\<close>

theorem clutter_event_copy_independent_witness:
  "event_at store1 1 = Some (press 100 1 10 20) \<and>
   fst (clutter_event_copy (Some 1) store1) = Some 2 \<and>
   event_at (snd (clutter_event_copy (Some 1) store1)) 2 = Some (press 100 1 10 20) \<and>
   event_at (event_assign (snd (clutter_event_copy (Some 1) store1)) 2 zero_event) 1 =
     Some (press 100 1 10 20)"
proof -
  have h: "event_at store1 1 = Some (press 100 1 10 20)"
    by (simp add: store1_def event_at_def)
  have l: "length (cells store1) = 2" by (simp add: store1_def)
  obtain q st' where c: "clutter_event_copy (Some 1) store1 = (Some q, st')" "q \<noteq> 1"
     "event_at st' q = event_at store1 1"
     "\<forall>v r. event_at (event_assign st' q v) r = (if r = q then Some v else event_at store1 r)"
    using clutter_event_copy_independent [OF h] h by auto
  have "q = 2" using c(1) l
    by (auto simp: clutter_event_new_def g_slice_new0_def Let_def split: prod.splits)
  then show ?thesis using h c by simp
qed

subsection \<open>The queue\<close>

lemma pending_push: "pending (clutter_event_queue_push b e) = pending b @ [e]"
  by (simp add: pending_def clutter_event_queue_push_def g_queue_push_head_def
        split: option.splits)

lemma pop_empty: "pending b = [] \<Longrightarrow> clutter_event_queue_pop b = (None, b)"
  by (cases b) (auto simp: pending_def clutter_event_queue_pop_def g_queue_pop_tail_def
        split: option.splits)

lemma pop_nonempty:
  assumes "pending b = x # xs"
  shows "fst (clutter_event_queue_pop b) = Some x \<and> pending (snd (clutter_event_queue_pop b)) = xs"
proof -
  obtain q where q: "events_queue b = Some q" "rev q = x # xs"
    using assms by (auto simp: pending_def split: option.splits)
  then have "q = rev xs @ [x]" by (metis rev_rev_ident rev.simps(2))
  then show ?thesis using q
    by (simp add: clutter_event_queue_pop_def g_queue_pop_tail_def pending_def)
qed

text \<open>Whatever the interleaving: what was pending followed by what was pushed is what
  the pops returned followed by what is still pending.\<close>

lemma run_queue_ops_order:
  "run_queue_ops b ops = (b', rs) \<Longrightarrow> pending b @ pushed ops = returned rs @ pending b'"
proof (induction b ops arbitrary: b' rs rule: run_queue_ops.induct)
  case (1 backend)
  then show ?case by simp
next
  case (2 backend e ops)
  then show ?case by (simp add: pending_push)
next
  case (3 backend ops)
  obtain r b1 where p: "clutter_event_queue_pop backend = (r, b1)" by fastforce
  obtain b2 rs2 where r2: "run_queue_ops b1 ops = (b2, rs2)" by fastforce
  have res: "b' = b2" "rs = r # rs2" using "3.prems" p r2 by simp_all
  have ih: "pending b1 @ pushed ops = returned rs2 @ pending b2"
    using "3.IH" [OF p [symmetric] refl r2] .
  show ?case
  proof (cases "pending backend")
    case Nil
    then show ?thesis using pop_empty [OF Nil] p ih res by simp
  next
    case (Cons x xs)
    then show ?thesis using pop_nonempty [OF Cons] p ih res by simp
  qed
qed

lemma run_queue_ops_push_all:
  "run_queue_ops b (map Push ps @ ops) =
     run_queue_ops (fold (\<lambda>e b. clutter_event_queue_push b e) ps b) ops"
  by (induction ps arbitrary: b) simp_all

lemma pending_push_all:
  "pending (fold (\<lambda>e b. clutter_event_queue_push b e) ps b) = pending b @ ps"
  by (induction ps arbitrary: b) (simp_all add: pending_push)

lemma run_queue_ops_pop_all:
  "pending b = xs \<Longrightarrow> snd (run_queue_ops b (replicate (length xs) Pop)) = map Some xs"
proof (induction xs arbitrary: b)
  case Nil
  then show ?case by simp
next
  case (Cons x xs)
  obtain r b1 where p: "clutter_event_queue_pop b = (r, b1)" by fastforce
  have "r = Some x" "pending b1 = xs" using pop_nonempty [OF Cons.prems] p by simp_all
  then show ?case using Cons.IH [of b1] p by (simp add: split_beta)
qed

text \<open>
  Claim C4. The queue is strictly first in, first out. For every run of pushes and pops,
  however interleaved, the events the pops return are, in order, the first of the events
  that were pending at the start followed by the events pushed, and the rest is what is
  still pending. On an empty queue, pushes \<open>P1..Pn\<close> followed by \<open>n\<close> pops return
  \<open>P1..Pn\<close> in that order. A pop on an empty queue returns none and leaves the backend as
  it is; a pop on a queue that is not empty returns its oldest event and removes it.
\<close>

theorem event_queue_fifo:
  "(\<forall>b' rs. run_queue_ops b ops = (b', rs) \<longrightarrow>
      pending b @ pushed ops = returned rs @ pending b') \<and>
   (pending b = [] \<longrightarrow>
      snd (run_queue_ops b (map Push ps @ replicate (length ps) Pop)) = map Some ps) \<and>
   (pending b = [] \<longrightarrow> clutter_event_queue_pop b = (None, b)) \<and>
   (pending b \<noteq> [] \<longrightarrow>
      fst (clutter_event_queue_pop b) = Some (hd (pending b)) \<and>
      pending (snd (clutter_event_queue_pop b)) = tl (pending b))"
proof (intro conjI allI impI)
  fix b' rs assume "run_queue_ops b ops = (b', rs)"
  then show "pending b @ pushed ops = returned rs @ pending b'" by (rule run_queue_ops_order)
next
  assume e: "pending b = []"
  show "snd (run_queue_ops b (map Push ps @ replicate (length ps) Pop)) = map Some ps"
    using run_queue_ops_pop_all [of "fold (\<lambda>e b. clutter_event_queue_push b e) ps b" ps]
    by (simp add: run_queue_ops_push_all pending_push_all e)
  show "clutter_event_queue_pop b = (None, b)" using e by (rule pop_empty)
next
  assume "pending b \<noteq> []"
  then obtain x xs where c: "pending b = x # xs" by (cases "pending b") auto
  show "fst (clutter_event_queue_pop b) = Some (hd (pending b))"
    and "pending (snd (clutter_event_queue_pop b)) = tl (pending b)"
    using pop_nonempty [OF c] c by simp_all
qed

text \<open>From the backend with no queue yet: two pushes and two pops; a pop on the empty
  queue; a pop after one push; and an interleaved run with a pop that finds the queue
  empty.\<close>

theorem event_queue_fifo_witness:
  "pending backend0 = [] \<and>
   snd (run_queue_ops backend0
          (map Push [press 1 1 0 0, press 2 1 0 0] @
           replicate (length [press 1 1 0 0, press 2 1 0 0]) Pop)) =
     [Some (press 1 1 0 0), Some (press 2 1 0 0)] \<and>
   clutter_event_queue_pop backend0 = (None, backend0) \<and>
   pending (clutter_event_queue_push backend0 (press 1 1 0 0)) \<noteq> [] \<and>
   fst (clutter_event_queue_pop (clutter_event_queue_push backend0 (press 1 1 0 0))) =
     Some (press 1 1 0 0) \<and>
   snd (run_queue_ops backend0
          [Push (press 1 1 0 0), Pop, Pop, Push (press 2 1 0 0), Push (press 3 1 0 0), Pop]) =
     [Some (press 1 1 0 0), None, Some (press 2 1 0 0)] \<and>
   pending (fst (run_queue_ops backend0
          [Push (press 1 1 0 0), Pop, Pop, Push (press 2 1 0 0), Push (press 3 1 0 0), Pop])) =
     [press 3 1 0 0]"
proof -
  have e: "pending backend0 = []" by (simp add: pending_def backend0_def)
  have n: "pending (clutter_event_queue_push backend0 (press 1 1 0 0)) = [press 1 1 0 0]"
    by (simp add: pending_push e)
  have r: "run_queue_ops backend0
          [Push (press 1 1 0 0), Pop, Pop, Push (press 2 1 0 0), Push (press 3 1 0 0), Pop] =
        (backend0\<lparr>events_queue := Some [press 3 1 0 0]\<rparr>,
         [Some (press 1 1 0 0), None, Some (press 2 1 0 0)])"
    by (simp add: backend0_def clutter_event_queue_push_def clutter_event_queue_pop_def
          g_queue_push_head_def g_queue_pop_tail_def)
  have p: "pending (backend0\<lparr>events_queue := Some [press 3 1 0 0]\<rparr>) = [press 3 1 0 0]"
    by (simp add: pending_def)
  show ?thesis
    using e n r p
      event_queue_fifo [of backend0
        "[Push (press 1 1 0 0), Pop, Pop, Push (press 2 1 0 0), Push (press 3 1 0 0), Pop]"
        "[press 1 1 0 0, press 2 1 0 0]"]
      event_queue_fifo [of "clutter_event_queue_push backend0 (press 1 1 0 0)" "[]" "[]"]
    by simp
qed

section \<open>Properties of the click synthesis\<close>

text \<open>Where the sum does not wrap around, the source's test \<open>t < s + k * d\<close> on 32-bit
  words is the test \<open>t - s < k * d\<close> on the numbers.\<close>

lemma window_no_wrap_1:
  fixes t s d :: "32 word"
  assumes "uint s + uint d < 2 ^ 32"
  shows "(t < s + d) = (uint t - uint s < 1 * uint d)"
proof -
  have "uint (s + d) = uint s + uint d"
    using assms uint_add_lem [of s d] by simp
  then show ?thesis by (auto simp: word_less_def)
qed

lemma window_no_wrap_2:
  fixes t s d :: "32 word"
  assumes "uint s + 2 * uint d < 2 ^ 32"
  shows "(t < s + 2 * d) = (uint t - uint s < 2 * uint d)"
proof -
  have "0 \<le> uint s" by simp
  then have "2 * uint d < 2 ^ 32" using assms by linarith
  then have "uint (2 :: 32 word) * uint d < 2 ^ 32" by simp
  then have m: "uint (2 * d) = 2 * uint d"
    using uint_mult_lem [of "2 :: 32 word" d] by simp
  then have "uint (s + 2 * d) = uint s + 2 * uint d"
    using assms uint_add_lem [of s "2 * d"] by simp
  then show ?thesis by (auto simp: word_less_def)
qed

lemma pending_synthesize:
  "pending (clutter_synthesize_click b P n) =
     pending b @ [P\<lparr>type := (if n = 2 then CLUTTER_2BUTTON_PRESS else CLUTTER_3BUTTON_PRESS)\<rparr>]"
  by (simp add: clutter_synthesize_click_def clutter_backend_put_event_def pending_push)

lemma synthesize_fields:
  "double_click_time (clutter_synthesize_click b P n) = double_click_time b"
  "double_click_distance (clutter_synthesize_click b P n) = double_click_distance b"
  by (simp_all add: clutter_synthesize_click_def clutter_backend_put_event_def
        clutter_event_queue_push_def)

lemma pending_click_fields [simp]:
  "pending (b\<lparr>button_click_time_1 := a1, button_click_time_0 := a0, button_number_1 := n1,
       button_number_0 := n0, button_x_1 := x1, button_x_0 := x0, button_y_1 := y1,
       button_y_0 := y0\<rparr>) = pending b"
  by (simp add: pending_def)

lemma code_window_1:
  assumes "uint (button_click_time_1 b) + 2 * uint (double_click_time b) < 2 ^ 32"
  shows "(button_time P < button_click_time_1 b + 2 * double_click_time b \<and>
          button_button P = button_number_1 b \<and>
          within_distance (button_x P) (button_x_1 b) (double_click_distance b) \<and>
          within_distance (button_y P) (button_y_1 b) (double_click_distance b)) =
         spec_window 2 (double_click_time b) (double_click_distance b) P (snd (click_state b))"
  by (simp add: spec_window_def click_state_def within_distance_def window_no_wrap_2 [OF assms])

lemma code_window_0:
  assumes "uint (button_click_time_0 b) + uint (double_click_time b) < 2 ^ 32"
  shows "(button_time P < button_click_time_0 b + double_click_time b \<and>
          button_button P = button_number_0 b \<and>
          within_distance (button_x P) (button_x_0 b) (double_click_distance b) \<and>
          within_distance (button_y P) (button_y_0 b) (double_click_distance b)) =
         spec_window 1 (double_click_time b) (double_click_distance b) P (fst (click_state b))"
  by (simp add: spec_window_def click_state_def within_distance_def window_no_wrap_1 [OF assms])

text \<open>
  The source tests the two windows as \<open>t < S1.time + 2 * DoubleClickInterval\<close> and
  \<open>t < S0.time + DoubleClickInterval\<close> in unsigned 32-bit arithmetic. In a backend in
  which neither sum exceeds the 32-bit range, the synthesizer does what the three-branch
  rule of the specification says: the slots it leaves are those of the rule, the event
  it queues is the copy of \<open>P\<close> with the kind the rule gives (nothing is queued when the
  rule emits nothing), and the two settings are unchanged.
\<close>

lemma button_generate_no_wrap:
  assumes w1: "uint (button_click_time_1 b) + 2 * uint (double_click_time b) < 2 ^ 32"
      and w0: "uint (button_click_time_0 b) + uint (double_click_time b) < 2 ^ 32"
  shows "(case spec_click_rule (double_click_time b) (double_click_distance b) P (click_state b) of
            (emit, S0', S1') \<Rightarrow>
              click_state (clutter_event_button_generate b P) = (S0', S1') \<and>
              pending (clutter_event_button_generate b P) =
                pending b @ (case emit of None \<Rightarrow> [] | Some k \<Rightarrow> [P\<lparr>type := k\<rparr>])) \<and>
         double_click_time (clutter_event_button_generate b P) = double_click_time b \<and>
         double_click_distance (clutter_event_button_generate b P) = double_click_distance b"
proof -
  let ?T = "spec_window 2 (double_click_time b) (double_click_distance b) P (snd (click_state b))"
  let ?D = "spec_window 1 (double_click_time b) (double_click_distance b) P (fst (click_state b))"
  consider (triple) "?T" | (double) "\<not> ?T" "?D" | (single) "\<not> ?T" "\<not> ?D" by blast
  then show ?thesis
  proof cases
    case triple
    have g: "clutter_event_button_generate b P =
        (clutter_synthesize_click b P 3)
          \<lparr> button_click_time_1 := 0, button_click_time_0 := 0,
            button_number_1 := - 1, button_number_0 := - 1,
            button_x_1 := 0, button_x_0 := 0, button_y_1 := 0, button_y_0 := 0 \<rparr>"
      unfolding clutter_event_button_generate_def code_window_1 [OF w1] using triple by simp
    have r: "spec_click_rule (double_click_time b) (double_click_distance b) P (click_state b) =
        (Some CLUTTER_3BUTTON_PRESS, empty_slot, empty_slot)"
      using triple by (simp add: spec_click_rule_def split_beta)
    show ?thesis unfolding g r
      by (simp add: pending_synthesize synthesize_fields click_state_def empty_slot_def)
  next
    case double
    have g: "clutter_event_button_generate b P =
        (clutter_synthesize_click b P 2)
          \<lparr> button_click_time_1 := button_click_time_0 b, button_click_time_0 := button_time P,
            button_number_1 := button_number_0 b, button_number_0 := button_button P,
            button_x_1 := button_x_0 b, button_x_0 := button_x P,
            button_y_1 := button_y_0 b, button_y_0 := button_y P \<rparr>"
      unfolding clutter_event_button_generate_def code_window_1 [OF w1] code_window_0 [OF w0]
      using double by simp
    have r: "spec_click_rule (double_click_time b) (double_click_distance b) P (click_state b) =
        (Some CLUTTER_2BUTTON_PRESS, slot_of_press P, fst (click_state b))"
      using double by (simp add: spec_click_rule_def split_beta)
    show ?thesis unfolding g r
      by (simp add: pending_synthesize synthesize_fields click_state_def slot_of_press_def)
  next
    case single
    have g: "clutter_event_button_generate b P =
        b \<lparr> button_click_time_1 := 0, button_click_time_0 := button_time P,
            button_number_1 := - 1, button_number_0 := button_button P,
            button_x_1 := 0, button_x_0 := button_x P,
            button_y_1 := 0, button_y_0 := button_y P \<rparr>"
      unfolding clutter_event_button_generate_def code_window_1 [OF w1] code_window_0 [OF w0]
      using single by simp
    have r: "spec_click_rule (double_click_time b) (double_click_distance b) P (click_state b) =
        (None, slot_of_press P, empty_slot)"
      using single by (simp add: spec_click_rule_def split_beta)
    show ?thesis unfolding g r
      by (simp add: click_state_def slot_of_press_def empty_slot_def)
  qed
qed

lemmas click_defs = clutter_event_button_generate_def within_distance_def
  clutter_synthesize_click_def clutter_backend_put_event_def clutter_event_queue_push_def
  g_queue_push_head_def backend0_def press_def

text \<open>The example of the specification, with a click distance of 5 and an interval of
  250: after the presses at times 0 and 100, the press at time 150 is within both
  windows; it queues a triple press and empties both slots.\<close>

lemma button_generate_no_wrap_example:
  "uint (button_click_time_1 (clutter_event_button_generate
      (clutter_event_button_generate backend0 (press 0 1 0 0)) (press 100 1 2 1))) +
     2 * uint (double_click_time (clutter_event_button_generate
      (clutter_event_button_generate backend0 (press 0 1 0 0)) (press 100 1 2 1))) < 2 ^ 32 \<and>
   uint (button_click_time_0 (clutter_event_button_generate
      (clutter_event_button_generate backend0 (press 0 1 0 0)) (press 100 1 2 1))) +
     uint (double_click_time (clutter_event_button_generate
      (clutter_event_button_generate backend0 (press 0 1 0 0)) (press 100 1 2 1))) < 2 ^ 32 \<and>
   click_state (clutter_event_button_generate (clutter_event_button_generate
      (clutter_event_button_generate backend0 (press 0 1 0 0)) (press 100 1 2 1))
      (press 150 1 1 0)) = (empty_slot, empty_slot) \<and>
   pending (clutter_event_button_generate (clutter_event_button_generate
      (clutter_event_button_generate backend0 (press 0 1 0 0)) (press 100 1 2 1))
      (press 150 1 1 0)) =
     [(press 100 1 2 1)\<lparr>type := CLUTTER_2BUTTON_PRESS\<rparr>,
      (press 150 1 1 0)\<lparr>type := CLUTTER_3BUTTON_PRESS\<rparr>]"
proof -
  define b2 where "b2 = clutter_event_button_generate
      (clutter_event_button_generate backend0 (press 0 1 0 0)) (press 100 1 2 1)"
  have v: "b2 = backend0\<lparr>events_queue := Some [(press 100 1 2 1)\<lparr>type := CLUTTER_2BUTTON_PRESS\<rparr>],
      button_click_time_1 := 0, button_click_time_0 := 100,
      button_number_1 := 1, button_number_0 := 1,
      button_x_1 := 0, button_x_0 := 2, button_y_1 := 0, button_y_0 := 1\<rparr>"
    unfolding b2_def by (simp add: click_defs new_event_value_def zero_event_def)
  have w1: "uint (button_click_time_1 b2) + 2 * uint (double_click_time b2) < 2 ^ 32"
    and w0: "uint (button_click_time_0 b2) + uint (double_click_time b2) < 2 ^ 32"
    unfolding v by (simp_all add: backend0_def)
  have p: "pending b2 = [(press 100 1 2 1)\<lparr>type := CLUTTER_2BUTTON_PRESS\<rparr>]"
    unfolding v by (simp add: pending_def)
  have r: "spec_click_rule (double_click_time b2) (double_click_distance b2) (press 150 1 1 0)
      (click_state b2) = (Some CLUTTER_3BUTTON_PRESS, empty_slot, empty_slot)"
    unfolding v
    by (simp add: spec_click_rule_def spec_window_def click_state_def backend0_def press_def)
  show ?thesis
    using w1 w0 p r button_generate_no_wrap [OF w1 w0, of "press 150 1 1 0"]
    unfolding b2_def by simp
qed

text \<open>
  Claim C3. For every button press fed to the synthesizer, the three-branch rule is to
  be followed exactly: a press within \<open>2 * DoubleClickInterval\<close> of the press in \<open>S1\<close>,
  with its button and within the click distance, emits a triple press and resets both
  slots. The source does not do so where its sum wraps around. With an interval of 250,
  presses of button 1 at the same place at times \<open>2^32 - 300\<close> and \<open>2^32 - 200\<close> queue
  a double press. A third press at \<open>2^32 - 150\<close> is 150 after the first one, inside the
  window of 500 of the rule, which emits a triple press; the source compares with
  \<open>2^32 - 300 + 500\<close>, which is 200 in 32 bits, and queues nothing.
\<close>

theorem button_generate_wraps:
  "pending (clutter_event_button_generate (clutter_event_button_generate backend0
       (press 0xFFFFFED4 1 0 0)) (press 0xFFFFFF38 1 0 0)) =
     [(press 0xFFFFFF38 1 0 0)\<lparr>type := CLUTTER_2BUTTON_PRESS\<rparr>] \<and>
   fst (spec_click_rule 250 5 (press 0xFFFFFF6A 1 0 0)
     (click_state (clutter_event_button_generate (clutter_event_button_generate backend0
       (press 0xFFFFFED4 1 0 0)) (press 0xFFFFFF38 1 0 0)))) = Some CLUTTER_3BUTTON_PRESS \<and>
   pending (clutter_event_button_generate (clutter_event_button_generate
     (clutter_event_button_generate backend0
       (press 0xFFFFFED4 1 0 0)) (press 0xFFFFFF38 1 0 0)) (press 0xFFFFFF6A 1 0 0)) =
     [(press 0xFFFFFF38 1 0 0)\<lparr>type := CLUTTER_2BUTTON_PRESS\<rparr>]"
  by (simp add: click_defs pending_def spec_click_rule_def spec_window_def click_state_def)

section \<open>Properties of the translators\<close>

lemmas action_defs = AMOTION_EVENT_ACTION_MASK_def AMOTION_EVENT_ACTION_DOWN_def
  AMOTION_EVENT_ACTION_UP_def AMOTION_EVENT_ACTION_MOVE_def

lemmas key_state_defs = AKEY_STATE_UP_def AKEY_STATE_DOWN_def AKEY_STATE_VIRTUAL_def

text \<open>
  Claim C6. For every native motion record: when its action, after masking, is none of
  Down, Up and Move, the motion translator returns false (and leaves the event as it
  was). When its action is Down, the translator accepts it and the event is a
  \<open>CLUTTER_BUTTON_PRESS\<close> with button 1 and click count 1, whose time is the event time
  of the record (in the 32 bits of the event's time) and whose coordinates are those of
  the record, every other member being as it was; so that a Down record with time 100
  and coordinates (10, 20) gives the time 100, x 10 and y 20.
\<close>

theorem translate_motion_event_down:
  "(AMotionEvent_getAction a AND AMOTION_EVENT_ACTION_MASK \<notin>
       {AMOTION_EVENT_ACTION_DOWN, AMOTION_EVENT_ACTION_UP, AMOTION_EVENT_ACTION_MOVE} \<longrightarrow>
      snd (translate_motion_event dev e a) = (False, e)) \<and>
   (AMotionEvent_getAction a AND AMOTION_EVENT_ACTION_MASK = AMOTION_EVENT_ACTION_DOWN \<longrightarrow>
      snd (translate_motion_event dev e a) =
        (True, e\<lparr> type := CLUTTER_BUTTON_PRESS,
                   button_time := ucast (AMotionEvent_getEventTime a),
                   button_x := AMotionEvent_getX a,
                   button_y := AMotionEvent_getY a,
                   button_button := 1,
                   button_click_count := 1,
                   button_device := Some (device_pointer dev) \<rparr>) \<and>
      type (snd (snd (translate_motion_event dev e a))) = CLUTTER_BUTTON_PRESS \<and>
      button_button (snd (snd (translate_motion_event dev e a))) = 1 \<and>
      button_click_count (snd (snd (translate_motion_event dev e a))) = 1 \<and>
      button_time (snd (snd (translate_motion_event dev e a))) =
        ucast (AMotionEvent_getEventTime a) \<and>
      button_x (snd (snd (translate_motion_event dev e a))) = AMotionEvent_getX a \<and>
      button_y (snd (snd (translate_motion_event dev e a))) = AMotionEvent_getY a) \<and>
   (AMotionEvent_getAction a AND AMOTION_EVENT_ACTION_MASK = AMOTION_EVENT_ACTION_DOWN \<and>
    AMotionEvent_getEventTime a = 100 \<and> AMotionEvent_getX a = 10 \<and> AMotionEvent_getY a = 20 \<longrightarrow>
      fst (snd (translate_motion_event dev e a)) = True \<and>
      type (snd (snd (translate_motion_event dev e a))) = CLUTTER_BUTTON_PRESS \<and>
      button_button (snd (snd (translate_motion_event dev e a))) = 1 \<and>
      button_click_count (snd (snd (translate_motion_event dev e a))) = 1 \<and>
      button_time (snd (snd (translate_motion_event dev e a))) = 100 \<and>
      button_x (snd (snd (translate_motion_event dev e a))) = 10 \<and>
      button_y (snd (snd (translate_motion_event dev e a))) = 20)"
  by (simp add: translate_motion_event_def Let_def)

text \<open>A record with the action code \<open>0x37\<close>; a Down record at time 100 and (10, 20);
  and a Down record at time \<open>2^32 + 7\<close> and (-3, 481), with a pointer index in the high
  bits of its action.\<close>

theorem translate_motion_event_down_witness:
  "AMotionEvent_getAction (motion_record 0x37) AND AMOTION_EVENT_ACTION_MASK \<notin>
       {AMOTION_EVENT_ACTION_DOWN, AMOTION_EVENT_ACTION_UP, AMOTION_EVENT_ACTION_MOVE} \<and>
   snd (translate_motion_event pointer0 fresh_event (motion_record 0x37)) = (False, fresh_event) \<and>
   AMotionEvent_getAction (motion_record 0) AND AMOTION_EVENT_ACTION_MASK =
     AMOTION_EVENT_ACTION_DOWN \<and>
   fst (snd (translate_motion_event pointer0 fresh_event (motion_record 0))) = True \<and>
   type (snd (snd (translate_motion_event pointer0 fresh_event (motion_record 0)))) =
     CLUTTER_BUTTON_PRESS \<and>
   button_time (snd (snd (translate_motion_event pointer0 fresh_event (motion_record 0)))) = 100 \<and>
   button_x (snd (snd (translate_motion_event pointer0 fresh_event (motion_record 0)))) = 10 \<and>
   button_y (snd (snd (translate_motion_event pointer0 fresh_event (motion_record 0)))) = 20 \<and>
   AMotionEvent_getAction ((motion_record 0x100)\<lparr>AMotionEvent_getEventTime := 0x100000007,
       AMotionEvent_getX := - 3, AMotionEvent_getY := 481\<rparr>) AND AMOTION_EVENT_ACTION_MASK =
     AMOTION_EVENT_ACTION_DOWN \<and>
   button_time (snd (snd (translate_motion_event pointer0 fresh_event
     ((motion_record 0x100)\<lparr>AMotionEvent_getEventTime := 0x100000007,
       AMotionEvent_getX := - 3, AMotionEvent_getY := 481\<rparr>)))) = 7 \<and>
   button_x (snd (snd (translate_motion_event pointer0 fresh_event
     ((motion_record 0x100)\<lparr>AMotionEvent_getEventTime := 0x100000007,
       AMotionEvent_getX := - 3, AMotionEvent_getY := 481\<rparr>)))) = - 3 \<and>
   button_y (snd (snd (translate_motion_event pointer0 fresh_event
     ((motion_record 0x100)\<lparr>AMotionEvent_getEventTime := 0x100000007,
       AMotionEvent_getX := - 3, AMotionEvent_getY := 481\<rparr>)))) = 481"
proof -
  have u: "AMotionEvent_getAction (motion_record 0x37) AND AMOTION_EVENT_ACTION_MASK \<notin>
       {AMOTION_EVENT_ACTION_DOWN, AMOTION_EVENT_ACTION_UP, AMOTION_EVENT_ACTION_MOVE}"
    by (simp add: motion_record_def action_defs)
  have d: "AMotionEvent_getAction (motion_record 0) AND AMOTION_EVENT_ACTION_MASK =
      AMOTION_EVENT_ACTION_DOWN \<and>
    AMotionEvent_getEventTime (motion_record 0) = 100 \<and>
    AMotionEvent_getX (motion_record 0) = 10 \<and> AMotionEvent_getY (motion_record 0) = 20"
    by (simp add: motion_record_def action_defs)
  have g: "AMotionEvent_getAction ((motion_record 0x100)\<lparr>AMotionEvent_getEventTime := 0x100000007,
       AMotionEvent_getX := - 3, AMotionEvent_getY := 481\<rparr>) AND AMOTION_EVENT_ACTION_MASK =
     AMOTION_EVENT_ACTION_DOWN"
    by (simp add: motion_record_def action_defs)
  have t: "(ucast (0x100000007 :: 64 word) :: 32 word) = 7"
    by simp
  show ?thesis
    using u d g t translate_motion_event_down [of "motion_record 0x37" pointer0 fresh_event]
      translate_motion_event_down [of "motion_record 0" pointer0 fresh_event]
      translate_motion_event_down [of "(motion_record 0x100)\<lparr>AMotionEvent_getEventTime := 0x100000007,
       AMotionEvent_getX := - 3, AMotionEvent_getY := 481\<rparr>" pointer0 fresh_event]
    by simp
qed

text \<open>
  What the switch of the key translator does with the value it reads through
  \<open>AMotionEvent_getMetaState\<close>: 0 gives a \<open>CLUTTER_KEY_RELEASE\<close>, 1 and 2 give a
  \<open>CLUTTER_KEY_PRESS\<close>, every other value is refused.
\<close>

lemma translate_key_event_switch:
  "(AMotionEvent_getMetaState a = AKEY_STATE_UP \<longrightarrow>
      fst (translate_key_event e a) = True \<and>
      type (snd (translate_key_event e a)) = CLUTTER_KEY_RELEASE) \<and>
   (AMotionEvent_getMetaState a = AKEY_STATE_DOWN \<or>
    AMotionEvent_getMetaState a = AKEY_STATE_VIRTUAL \<longrightarrow>
      fst (translate_key_event e a) = True \<and>
      type (snd (translate_key_event e a)) = CLUTTER_KEY_PRESS) \<and>
   (AMotionEvent_getMetaState a \<notin> {AKEY_STATE_UP, AKEY_STATE_DOWN, AKEY_STATE_VIRTUAL} \<longrightarrow>
      fst (translate_key_event e a) = False)"
  by (auto simp: translate_key_event_def Let_def key_state_defs)

text \<open>
  Claim C7. The key translator is to map the key state of a native key record: up to a
  \<open>CLUTTER_KEY_RELEASE\<close>, down and virtual-down to a \<open>CLUTTER_KEY_PRESS\<close>, anything
  else to none. The source does not: what it switches on is the meta state of the
  record, its modifier bitmask, and the key state of the record has no influence on
  the result. A record of a key that is down with no modifier held (meta state 0) is
  translated into a \<open>CLUTTER_KEY_RELEASE\<close>; a record of a key that is up with the meta
  state 1 into a \<open>CLUTTER_KEY_PRESS\<close>; a record of a key that is down with the meta
  state \<open>0x41\<close> is refused.
\<close>

theorem translate_key_event_ignores_key_state:
  "translate_key_event e (a\<lparr>key_state := s\<rparr>) = translate_key_event e a \<and>
   key_state (key_record 0) = AKEY_STATE_DOWN \<and>
   AMotionEvent_getMetaState (key_record 0) = 0 \<and>
   translate_key_event fresh_event (key_record 0) =
     (True, fresh_event\<lparr>key_unicode_value := 29, type := CLUTTER_KEY_RELEASE\<rparr>) \<and>
   key_state ((key_record 1)\<lparr>key_state := AKEY_STATE_UP\<rparr>) = AKEY_STATE_UP \<and>
   translate_key_event fresh_event ((key_record 1)\<lparr>key_state := AKEY_STATE_UP\<rparr>) =
     (True, fresh_event\<lparr>key_unicode_value := 29, type := CLUTTER_KEY_PRESS\<rparr>) \<and>
   key_state (key_record 0x41) = AKEY_STATE_DOWN \<and>
   fst (translate_key_event fresh_event (key_record 0x41)) = False"
  by (simp add: translate_key_event_def Let_def key_record_def key_state_defs)

subsection \<open>Time and modifier state\<close>

lemma translate_motion_event_time:
  "fst (snd (translate_motion_event dev e a)) \<Longrightarrow>
     clutter_event_get_time (Some (snd (snd (translate_motion_event dev e a)))) =
       ucast (AMotionEvent_getEventTime a)"
  unfolding translate_motion_event_def Let_def
  by (cases "AMotionEvent_getAction a AND AMOTION_EVENT_ACTION_MASK = AMOTION_EVENT_ACTION_DOWN";
      cases "AMotionEvent_getAction a AND AMOTION_EVENT_ACTION_MASK = AMOTION_EVENT_ACTION_UP";
      cases "AMotionEvent_getAction a AND AMOTION_EVENT_ACTION_MASK = AMOTION_EVENT_ACTION_MOVE")
     simp_all

lemma translate_motion_event_state:
  "fst (snd (translate_motion_event dev e a)) \<Longrightarrow>
     clutter_event_get_state (Some (snd (snd (translate_motion_event dev e a)))) =
       (if type (snd (snd (translate_motion_event dev e a))) = CLUTTER_MOTION
        then CLUTTER_BUTTON1_MASK else button_modifier_state e)"
  unfolding translate_motion_event_def Let_def
  by (cases "AMotionEvent_getAction a AND AMOTION_EVENT_ACTION_MASK = AMOTION_EVENT_ACTION_DOWN";
      cases "AMotionEvent_getAction a AND AMOTION_EVENT_ACTION_MASK = AMOTION_EVENT_ACTION_UP";
      cases "AMotionEvent_getAction a AND AMOTION_EVENT_ACTION_MASK = AMOTION_EVENT_ACTION_MOVE")
     simp_all

lemma translate_key_event_keeps:
  "fst (translate_key_event e a) \<Longrightarrow>
     clutter_event_get_time (Some (snd (translate_key_event e a))) = key_time e \<and>
     clutter_event_get_state (Some (snd (translate_key_event e a))) = key_modifier_state e"
  unfolding translate_key_event_def Let_def
  by (cases "AMotionEvent_getMetaState a = AKEY_STATE_UP";
      cases "AMotionEvent_getMetaState a = AKEY_STATE_DOWN \<or>
             AMotionEvent_getMetaState a = AKEY_STATE_VIRTUAL")
     simp_all

lemma ucast_time_small:
  fixes t :: "64 word"
  assumes "uint t < 2 ^ 32"
  shows "uint (ucast t :: 32 word) = uint t"
  using assms by (simp add: unsigned_ucast_eq take_bit_int_eq_self)

text \<open>
  Claim C2, as amended. For every native record the motion translator accepts, the time
  of the event is the platform's event time, reduced to the 32 bits of the event's time
  (and equal to it when it fits); its modifier state is not the platform's: a button
  event keeps the modifier state the event had before, a motion event has
  \<open>CLUTTER_BUTTON1_MASK\<close>. For every native record the key translator accepts, the event
  keeps the time and the modifier state it had before.
\<close>

theorem translators_time_and_state:
  "(fst (snd (translate_motion_event dev e a)) \<longrightarrow>
      clutter_event_get_time (Some (snd (snd (translate_motion_event dev e a)))) =
        ucast (AMotionEvent_getEventTime a) \<and>
      (uint (AMotionEvent_getEventTime a) < 2 ^ 32 \<longrightarrow>
         uint (clutter_event_get_time (Some (snd (snd (translate_motion_event dev e a))))) =
           uint (AMotionEvent_getEventTime a)) \<and>
      clutter_event_get_state (Some (snd (snd (translate_motion_event dev e a)))) =
        (if type (snd (snd (translate_motion_event dev e a))) = CLUTTER_MOTION
         then CLUTTER_BUTTON1_MASK else button_modifier_state e)) \<and>
   (fst (translate_key_event e a) \<longrightarrow>
      clutter_event_get_time (Some (snd (translate_key_event e a))) = key_time e \<and>
      clutter_event_get_state (Some (snd (translate_key_event e a))) = key_modifier_state e)"
  using translate_motion_event_time [of dev e a] translate_motion_event_state [of dev e a]
    translate_key_event_keeps [of e a]
  by (simp add: ucast_time_small)

text \<open>On the event the input handler creates: a Down record, a Move record and a key
  record, each with the event time 100 and the meta state 1.\<close>

theorem translators_time_and_state_witness:
  "fst (snd (translate_motion_event pointer0 fresh_event (motion_record 0))) \<and>
   uint (AMotionEvent_getEventTime (motion_record 0)) < 2 ^ 32 \<and>
   clutter_event_get_time
     (Some (snd (snd (translate_motion_event pointer0 fresh_event (motion_record 0))))) = 100 \<and>
   clutter_event_get_state
     (Some (snd (snd (translate_motion_event pointer0 fresh_event (motion_record 0))))) = 0 \<and>
   fst (snd (translate_motion_event pointer0 fresh_event (motion_record 2))) \<and>
   clutter_event_get_state
     (Some (snd (snd (translate_motion_event pointer0 fresh_event (motion_record 2))))) =
     CLUTTER_BUTTON1_MASK \<and>
   fst (translate_key_event fresh_event (key_record 1)) \<and>
   clutter_event_get_time (Some (snd (translate_key_event fresh_event (key_record 1)))) = 0"
proof -
  have m0: "fst (snd (translate_motion_event pointer0 fresh_event (motion_record 0)))"
    "type (snd (snd (translate_motion_event pointer0 fresh_event (motion_record 0)))) =
       CLUTTER_BUTTON_PRESS"
    by (simp_all add: translate_motion_event_def motion_record_def action_defs)
  have m2: "fst (snd (translate_motion_event pointer0 fresh_event (motion_record 2)))"
    "type (snd (snd (translate_motion_event pointer0 fresh_event (motion_record 2)))) =
       CLUTTER_MOTION"
    by (simp_all add: translate_motion_event_def motion_record_def action_defs)
  have k: "fst (translate_key_event fresh_event (key_record 1))"
    by (simp add: translate_key_event_def key_record_def key_state_defs)
  have f: "button_modifier_state fresh_event = 0" "key_time fresh_event = 0"
    by (simp_all add: fresh_event_def new_event_value_def zero_event_def)
  have t: "AMotionEvent_getEventTime (motion_record 0) = 100"
    by (simp add: motion_record_def)
  show ?thesis
    using m0 m2 k f t translators_time_and_state [of pointer0 fresh_event "motion_record 0" ]
      translators_time_and_state [of pointer0 fresh_event "motion_record 2"]
      translators_time_and_state [of pointer0 fresh_event "key_record 1"]
    by simp
qed

text \<open>
  Claim C2 as stated fails. The key translator accepts a key record with the event time
  100 and the meta state 1, and the event, which the input handler queues, has the time
  0 and the modifier state 0; the motion translator accepts a Down record with the meta
  state 1, and the event has the modifier state 0.
\<close>

theorem translators_drop_time_and_state:
  "fst (translate_key_event fresh_event (key_record 1)) = True \<and>
   AMotionEvent_getEventTime (key_record 1) = 100 \<and>
   clutter_event_get_time (Some (snd (translate_key_event fresh_event (key_record 1)))) = 0 \<and>
   AMotionEvent_getMetaState (key_record 1) = 1 \<and>
   clutter_event_get_state (Some (snd (translate_key_event fresh_event (key_record 1)))) = 0 \<and>
   fst (snd (translate_motion_event pointer0 fresh_event (motion_record 0))) = True \<and>
   AMotionEvent_getMetaState (motion_record 0) = 1 \<and>
   clutter_event_get_state
     (Some (snd (snd (translate_motion_event pointer0 fresh_event (motion_record 0))))) = 0 \<and>
   pending (context_backend (fst (clutter_android_handle_input context0 (key_record 1)))) =
     [snd (translate_key_event fresh_event (key_record 1))]"
  by (simp add: translate_key_event_def translate_motion_event_def key_record_def motion_record_def
      fresh_event_def new_event_value_def zero_event_def key_state_defs action_defs
      clutter_android_handle_input_def context0_def backend0_def AINPUT_EVENT_TYPE_KEY_def
      clutter_event_push_def clutter_event_queue_push_def g_queue_push_head_def pending_def
      CLUTTER_EVENT_NONE_def)

section \<open>Properties of the command dispatcher\<close>

text \<open>
  Claim C1, as amended. For every \<open>APP_CMD_TERM_WINDOW\<close>: when a loop is waiting for the
  window the dispatcher wakes it, and when none is waiting it stops the run loop; in both
  cases its next and last call ends the process with \<open>exit (0)\<close>. The state of the
  application is unchanged.
\<close>

theorem term_window_quits_then_exits:
  "fst (clutter_android_handle_cmd tk app APP_CMD_TERM_WINDOW) = app \<and>
   last (snd (clutter_android_handle_cmd tk app APP_CMD_TERM_WINDOW)) = exit 0 \<and>
   (\<forall>loop. wait_for_window (userData app) = Some loop \<longrightarrow>
      snd (clutter_android_handle_cmd tk app APP_CMD_TERM_WINDOW) =
        [g_message ''command: TERM_WINDOW'', g_main_loop_quit loop, exit 0]) \<and>
   (wait_for_window (userData app) = None \<longrightarrow>
      snd (clutter_android_handle_cmd tk app APP_CMD_TERM_WINDOW) =
        [g_message ''command: TERM_WINDOW'', clutter_main_quit, exit 0])"
  by (simp split: option.splits)

text \<open>With the loop at address 7 waiting, and with no loop waiting.\<close>

theorem term_window_quits_then_exits_witness:
  "wait_for_window (userData (app_with None (Some 7))) = Some 7 \<and>
   snd (clutter_android_handle_cmd toolkit0 (app_with None (Some 7)) APP_CMD_TERM_WINDOW) =
     [g_message ''command: TERM_WINDOW'', g_main_loop_quit 7, exit 0] \<and>
   wait_for_window (userData (app_with None None)) = None \<and>
   snd (clutter_android_handle_cmd toolkit0 (app_with None None) APP_CMD_TERM_WINDOW) =
     [g_message ''command: TERM_WINDOW'', clutter_main_quit, exit 0]"
proof -
  have w: "wait_for_window (userData (app_with None (Some 7))) = Some 7"
    "wait_for_window (userData (app_with None None)) = None"
    by (simp_all add: app_with_def)
  show ?thesis
    using w term_window_quits_then_exits [of toolkit0 "app_with None (Some 7)"]
      term_window_quits_then_exits [of toolkit0 "app_with None None"]
    by simp
qed

text \<open>
  Claim C1 as stated fails: with a loop waiting for the window, the dispatcher still
  ends the process.
\<close>

theorem term_window_waiting_exits:
  "wait_for_window (userData (app_with None (Some 7))) = Some 7 \<and>
   exit 0 \<in> set (snd (clutter_android_handle_cmd toolkit0 (app_with None (Some 7))
                        APP_CMD_TERM_WINDOW))"
  by (simp add: app_with_def)

lemma gfloat_of_int_exact: "\<bar>n\<bar> < 2 ^ 24 \<Longrightarrow> gfloat_of_int n = of_int n"
proof -
  assume a: "\<bar>n\<bar> < 2 ^ 24"
  then have "nat \<bar>n\<bar> < 2 ^ 24" by (simp add: nat_less_iff)
  then have e: "excess_bits (nat \<bar>n\<bar>) = 0" by (simp add: excess_bits.simps)
  have "real_of_int (sgn n) * \<bar>real_of_int n\<bar> = real_of_int n"
    by (simp add: sgn_if)
  then show ?thesis by (simp add: gfloat_of_int_def e Let_def)
qed

lemma gfloat_of_int_rounds: "gfloat_of_int 16777217 = 16777216"
proof -
  have "excess_bits 16777217 = 1"
    by (subst excess_bits.simps, simp, subst excess_bits.simps, simp)
  then show ?thesis by (simp add: gfloat_of_int_def Let_def)
qed

text \<open>
  Claim C8, as amended. With no native window, \<open>APP_CMD_WINDOW_RESIZED\<close> and
  \<open>APP_CMD_WINDOW_REDRAW_NEEDED\<close> only log the command and change nothing. With a native
  window, \<open>APP_CMD_WINDOW_REDRAW_NEEDED\<close> reads its dimensions and, only if they differ
  as \<open>float\<close>s from the size of the stage, resizes the rendering surface and requests a
  re-layout; \<open>APP_CMD_WINDOW_RESIZED\<close> reads its dimensions and sets the size of the
  stage to them, without comparing, and makes no other call. Neither changes the state
  of the application. A dimension below \<open>2^24\<close> is its own \<open>float\<close>.
\<close>

theorem window_resize_commands:
  "(window app = None \<longrightarrow>
      clutter_android_handle_cmd tk app APP_CMD_WINDOW_RESIZED =
        (app, [g_message ''command: window resized!'']) \<and>
      clutter_android_handle_cmd tk app APP_CMD_WINDOW_REDRAW_NEEDED =
        (app, [g_message ''command: REDRAW_NEEDED''])) \<and>
   (\<forall>w. window app = Some w \<longrightarrow>
      fst (clutter_android_handle_cmd tk app APP_CMD_WINDOW_REDRAW_NEEDED) = app \<and>
      (clutter_actor_get_width tk = gfloat_of_int (ANativeWindow_getWidth w) \<and>
       clutter_actor_get_height tk = gfloat_of_int (ANativeWindow_getHeight w) \<longrightarrow>
         snd (clutter_android_handle_cmd tk app APP_CMD_WINDOW_REDRAW_NEEDED) =
           [g_message ''command: REDRAW_NEEDED'', g_message ''stage size %fx%f'']) \<and>
      (clutter_actor_get_width tk \<noteq> gfloat_of_int (ANativeWindow_getWidth w) \<or>
       clutter_actor_get_height tk \<noteq> gfloat_of_int (ANativeWindow_getHeight w) \<longrightarrow>
         snd (clutter_android_handle_cmd tk app APP_CMD_WINDOW_REDRAW_NEEDED) =
           [g_message ''command: REDRAW_NEEDED'', g_message ''stage size %fx%f'',
            g_message ''resizing stage @ %ix%i'',
            cogl_android_onscreen_update_size (ANativeWindow_getWidth w) (ANativeWindow_getHeight w),
            clutter_actor_queue_relayout]) \<and>
      clutter_android_handle_cmd tk app APP_CMD_WINDOW_RESIZED =
        (app, [g_message ''command: window resized!'', g_message ''resizing stage @ %ix%i'',
               clutter_actor_set_size (gfloat_of_int (ANativeWindow_getWidth w))
                 (gfloat_of_int (ANativeWindow_getHeight w))])) \<and>
   (\<forall>n. \<bar>n\<bar> < 2 ^ 24 \<longrightarrow> gfloat_of_int n = of_int n)"
  by (simp add: Let_def gfloat_of_int_exact)

text \<open>With a stage of 480 by 800: no window; a window of the same size; a window of
  800 by 480. With a stage of \<open>2^24\<close> by 800: a window of \<open>2^24 + 1\<close> by 800, which has
  the size of the stage as \<open>float\<close>s.\<close>

theorem window_resize_commands_witness:
  "window (app_with None None) = None \<and>
   clutter_android_handle_cmd toolkit0 (app_with None None) APP_CMD_WINDOW_RESIZED =
     (app_with None None, [g_message ''command: window resized!'']) \<and>
   window (app_with (Some (native_window 480 800)) None) = Some (native_window 480 800) \<and>
   snd (clutter_android_handle_cmd toolkit0 (app_with (Some (native_window 480 800)) None)
          APP_CMD_WINDOW_REDRAW_NEEDED) =
     [g_message ''command: REDRAW_NEEDED'', g_message ''stage size %fx%f''] \<and>
   window (app_with (Some (native_window 800 480)) None) = Some (native_window 800 480) \<and>
   snd (clutter_android_handle_cmd toolkit0 (app_with (Some (native_window 800 480)) None)
          APP_CMD_WINDOW_REDRAW_NEEDED) =
     [g_message ''command: REDRAW_NEEDED'', g_message ''stage size %fx%f'',
      g_message ''resizing stage @ %ix%i'', cogl_android_onscreen_update_size 800 480,
      clutter_actor_queue_relayout] \<and>
   snd (clutter_android_handle_cmd toolkit0 (app_with (Some (native_window 800 480)) None)
          APP_CMD_WINDOW_RESIZED) =
     [g_message ''command: window resized!'', g_message ''resizing stage @ %ix%i'',
      clutter_actor_set_size 800 480] \<and>
   window (app_with (Some (native_window 16777217 800)) None) =
     Some (native_window 16777217 800) \<and>
   snd (clutter_android_handle_cmd (toolkit0\<lparr>clutter_actor_get_width := 16777216\<rparr>)
          (app_with (Some (native_window 16777217 800)) None) APP_CMD_WINDOW_REDRAW_NEEDED) =
     [g_message ''command: REDRAW_NEEDED'', g_message ''stage size %fx%f'']"
proof -
  have w: "window (app_with None None) = None"
    "window (app_with (Some (native_window 480 800)) None) = Some (native_window 480 800)"
    "window (app_with (Some (native_window 800 480)) None) = Some (native_window 800 480)"
    "window (app_with (Some (native_window 16777217 800)) None) =
       Some (native_window 16777217 800)"
    by (simp_all add: app_with_def)
  have f: "gfloat_of_int 480 = 480" "gfloat_of_int 800 = 800"
    by (simp_all add: gfloat_of_int_exact)
  have d: "clutter_actor_get_width toolkit0 = gfloat_of_int (ANativeWindow_getWidth (native_window 480 800)) \<and>
       clutter_actor_get_height toolkit0 = gfloat_of_int (ANativeWindow_getHeight (native_window 480 800))"
    "clutter_actor_get_width toolkit0 \<noteq> gfloat_of_int (ANativeWindow_getWidth (native_window 800 480))"
    "ANativeWindow_getWidth (native_window 800 480) = 800"
    "ANativeWindow_getHeight (native_window 800 480) = 480"
    by (simp_all add: toolkit0_def native_window_def f)
  have r: "clutter_actor_get_width (toolkit0\<lparr>clutter_actor_get_width := 16777216\<rparr>) =
         gfloat_of_int (ANativeWindow_getWidth (native_window 16777217 800)) \<and>
       clutter_actor_get_height (toolkit0\<lparr>clutter_actor_get_width := 16777216\<rparr>) =
         gfloat_of_int (ANativeWindow_getHeight (native_window 16777217 800))"
    by (simp add: toolkit0_def native_window_def f gfloat_of_int_rounds)
  show ?thesis
    using w d f r window_resize_commands [of "app_with None None" toolkit0]
      window_resize_commands [of "app_with (Some (native_window 480 800)) None" toolkit0]
      window_resize_commands [of "app_with (Some (native_window 800 480)) None" toolkit0]
      window_resize_commands [of "app_with (Some (native_window 16777217 800)) None"
        "toolkit0\<lparr>clutter_actor_get_width := 16777216\<rparr>"]
    by simp
qed

text \<open>
  Claim C8 as stated fails for \<open>APP_CMD_WINDOW_RESIZED\<close>. With a window of the size of
  the stage, 480 by 800, the dispatcher still sets the size of the stage; with a window
  of 800 by 480 it sets the size of the stage, and neither resizes the rendering surface
  nor requests a re-layout.
\<close>

theorem window_resized_sets_size:
  "window (app_with (Some (native_window 480 800)) None) = Some (native_window 480 800) \<and>
   clutter_actor_get_width toolkit0 = 480 \<and> clutter_actor_get_height toolkit0 = 800 \<and>
   snd (clutter_android_handle_cmd toolkit0 (app_with (Some (native_window 480 800)) None)
          APP_CMD_WINDOW_RESIZED) =
     [g_message ''command: window resized!'', g_message ''resizing stage @ %ix%i'',
      clutter_actor_set_size 480 800] \<and>
   snd (clutter_android_handle_cmd toolkit0 (app_with (Some (native_window 800 480)) None)
          APP_CMD_WINDOW_RESIZED) =
     [g_message ''command: window resized!'', g_message ''resizing stage @ %ix%i'',
      clutter_actor_set_size 800 480]"
  by (simp add: app_with_def native_window_def toolkit0_def gfloat_of_int_exact)

end
